theory Spec2Isabelle
  imports Complex_Main "HOL-Library.Product_Lexorder"
begin

section \<open>JavaScript strings and regular expressions\<close>

text \<open>
  The lite parser, the SPA detector and the chunker are written with JavaScript string
  methods and regular-expression literals.  Strings are modelled as \<^typ>\<open>string\<close>
  (one \<^typ>\<open>char\<close> per code unit, code units 0..255), and a regular expression as a
  term of the datatype \<open>rx\<close>, run by a backtracking matcher that returns the successful
  end positions in the priority order of the ECMAScript semantics (greedy and lazy
  quantifiers, alternatives left to right).
\<close>

fun in_chars :: "string \<Rightarrow> char \<Rightarrow> bool" where
  "in_chars [] c = False"
| "in_chars (d # ds) c = (if c = d then True else in_chars ds c)"

fun assoc_char :: "string \<Rightarrow> string \<Rightarrow> char \<Rightarrow> char" where
  \<comment> \<open>the character paired with \<open>c\<close> in two aligned alphabets, \<open>c\<close> itself if there is none\<close>
  "assoc_char (k # ks) (v # vs) c = (if c = k then v else assoc_char ks vs c)"
| "assoc_char _ _ c = c"

definition upper_letters :: string where
  \<comment> \<open>A-Z and the Latin-1 capitals 0xC0-0xDE (without the multiplication sign 0xD7)\<close>
  "upper_letters = ''ABCDEFGHIJKLMNOPQRSTUVWXYZ'' @
     [CHR 0xC0, CHR 0xC1, CHR 0xC2, CHR 0xC3, CHR 0xC4, CHR 0xC5, CHR 0xC6, CHR 0xC7,
      CHR 0xC8, CHR 0xC9, CHR 0xCA, CHR 0xCB, CHR 0xCC, CHR 0xCD, CHR 0xCE, CHR 0xCF,
      CHR 0xD0, CHR 0xD1, CHR 0xD2, CHR 0xD3, CHR 0xD4, CHR 0xD5, CHR 0xD6,
      CHR 0xD8, CHR 0xD9, CHR 0xDA, CHR 0xDB, CHR 0xDC, CHR 0xDD, CHR 0xDE]"

definition lower_letters :: string where
  \<comment> \<open>a-z and the Latin-1 small letters 0xE0-0xFE (without the division sign 0xF7)\<close>
  "lower_letters = ''abcdefghijklmnopqrstuvwxyz'' @
     [CHR 0xE0, CHR 0xE1, CHR 0xE2, CHR 0xE3, CHR 0xE4, CHR 0xE5, CHR 0xE6, CHR 0xE7,
      CHR 0xE8, CHR 0xE9, CHR 0xEA, CHR 0xEB, CHR 0xEC, CHR 0xED, CHR 0xEE, CHR 0xEF,
      CHR 0xF0, CHR 0xF1, CHR 0xF2, CHR 0xF3, CHR 0xF4, CHR 0xF5, CHR 0xF6,
      CHR 0xF8, CHR 0xF9, CHR 0xFA, CHR 0xFB, CHR 0xFC, CHR 0xFD, CHR 0xFE]"

text \<open>
  A code unit is \<open>Char b0 \<dots> b7\<close>, least significant bit first.  The two cases of a letter
  differ in bit 5 only: A-Z are 0x41-0x5A and a-z are 0x61-0x7A (the low five bits run
  from 1 to 26), the Latin-1 letters are 0xC0-0xDE and 0xE0-0xFE (the low five bits run
  from 0 to 30, without 23).
\<close>

definition ascii_letter5 :: "bool \<Rightarrow> bool \<Rightarrow> bool \<Rightarrow> bool \<Rightarrow> bool \<Rightarrow> bool" where
  \<comment> \<open>the five bits are a number from 1 to 26\<close>
  "ascii_letter5 b0 b1 b2 b3 b4 = ((b0 \<or> b1 \<or> b2 \<or> b3 \<or> b4) \<and> \<not> (b4 \<and> b3 \<and> (b2 \<or> (b1 \<and> b0))))"

definition latin_letter5 :: "bool \<Rightarrow> bool \<Rightarrow> bool \<Rightarrow> bool \<Rightarrow> bool \<Rightarrow> bool" where
  \<comment> \<open>the five bits are a number from 0 to 30 other than 23\<close>
  "latin_letter5 b0 b1 b2 b3 b4 =
     (\<not> (b0 \<and> b1 \<and> b2 \<and> b3 \<and> b4) \<and> \<not> (b0 \<and> b1 \<and> b2 \<and> \<not> b3 \<and> b4))"

fun char_lower :: "char \<Rightarrow> char" where
  \<comment> \<open>\<open>toLowerCase\<close> on one code unit\<close>
  "char_lower (Char b0 b1 b2 b3 b4 b5 b6 b7) =
     (if \<not> b5 \<and> b6 \<and> (if b7 then latin_letter5 b0 b1 b2 b3 b4 else ascii_letter5 b0 b1 b2 b3 b4)
      then Char b0 b1 b2 b3 b4 True b6 b7 else Char b0 b1 b2 b3 b4 b5 b6 b7)"

fun char_upper :: "char \<Rightarrow> char" where
  \<comment> \<open>the other case of a small letter, as the \<open>i\<close> flag compares characters\<close>
  "char_upper (Char b0 b1 b2 b3 b4 b5 b6 b7) =
     (if b5 \<and> b6 \<and> (if b7 then latin_letter5 b0 b1 b2 b3 b4 else ascii_letter5 b0 b1 b2 b3 b4)
      then Char b0 b1 b2 b3 b4 False b6 b7 else Char b0 b1 b2 b3 b4 b5 b6 b7)"

definition strlen :: "string \<Rightarrow> int" where
  \<comment> \<open>\<open>s.length\<close>\<close>
  "strlen s = int (length s)"

definition toLowerCase :: "string \<Rightarrow> string" where
  "toLowerCase s = map char_lower s"

definition is_space :: "char \<Rightarrow> bool" where
  \<comment> \<open>\<open>\s\<close>, and the characters removed by \<open>trim()\<close>: tab, LF, VT, FF, CR, space, NBSP\<close>
  "is_space c = in_chars [CHR 0x09, CHR 0x0A, CHR 0x0B, CHR 0x0C, CHR 0x0D, CHR 0x20, CHR 0xA0] c"

definition is_digit :: "char \<Rightarrow> bool" where
  \<comment> \<open>\<open>\d\<close>\<close>
  "is_digit c = in_chars ''0123456789'' c"

definition is_word :: "char \<Rightarrow> bool" where
  \<comment> \<open>\<open>\w\<close>\<close>
  "is_word c = in_chars ''abcdefghijklmnopqrstuvwxyzABCDEFGHIJKLMNOPQRSTUVWXYZ0123456789_'' c"

definition trim :: "string \<Rightarrow> string" where
  "trim s = rev (dropWhile is_space (rev (dropWhile is_space s)))"

datatype cls =
    Chr char            \<comment> \<open>one character\<close>
  | Space               \<comment> \<open>\<open>\s\<close>\<close>
  | NotSpace            \<comment> \<open>\<open>\S\<close>\<close>
  | Digit               \<comment> \<open>\<open>\d\<close>\<close>
  | Word                \<comment> \<open>\<open>\w\<close>\<close>

datatype rx =
    Eps
  | Atom bool "cls list"            \<comment> \<open>\<open>[...]\<close>; \<open>True\<close> for the negated \<open>[^...]\<close>\<close>
  | Dot                             \<comment> \<open>\<open>.\<close>: any character but a line terminator\<close>
  | Seq rx rx
  | Alt rx rx
  | Rep nat "nat option" bool rx    \<comment> \<open>\<open>{lo,hi}\<close>, \<open>None\<close> for no upper bound; \<open>True\<close> greedy, \<open>False\<close> lazy\<close>
  | Bol                             \<comment> \<open>\<open>^\<close>\<close>
  | Eol                             \<comment> \<open>\<open>$\<close>\<close>
  | WordB                           \<comment> \<open>\<open>\b\<close>\<close>
  | Behind bool "cls list"          \<comment> \<open>\<open>(?<=[...])\<close>, a one-character lookbehind\<close>
  | Ahead bool "cls list"           \<comment> \<open>\<open>(?=[...])\<close>, a one-character lookahead\<close>

fun item_in :: "cls \<Rightarrow> char \<Rightarrow> bool" where
  "item_in (Chr d) c = (c = d)"
| "item_in Space c = is_space c"
| "item_in NotSpace c = (\<not> is_space c)"
| "item_in Digit c = is_digit c"
| "item_in Word c = is_word c"

definition cls_match :: "bool \<Rightarrow> cls list \<Rightarrow> char \<Rightarrow> bool" where
  "cls_match neg items c = (list_ex (\<lambda>i. item_in i c) items \<noteq> neg)"

type_synonym pos = "string \<times> string"
  \<comment> \<open>a position in the subject: the text before it, reversed, and the text after it\<close>

function rep_iter :: "(pos \<Rightarrow> pos list) \<Rightarrow> bool \<Rightarrow> nat \<Rightarrow> nat option \<Rightarrow> pos \<Rightarrow> pos list" where
  \<comment> \<open>the repeat matcher: an iteration that consumes nothing is rejected once the lower
      bound is reached\<close>
  "rep_iter m greedy lo hi z =
     (if hi = Some 0 then [z]
      else
        let nexts = (if lo = 0 then filter (\<lambda>y. length (snd y) < length (snd z)) (m z) else m z);
            more = concat (map (rep_iter m greedy (lo - 1) (map_option (\<lambda>h. h - 1) hi)) nexts)
        in if lo \<noteq> 0 then more else if greedy then more @ [z] else z # more)"
  by pat_completeness auto
termination
  by (relation "measures [\<lambda>(m, g, lo, hi, z). lo, \<lambda>(m, g, lo, hi, z). length (snd z)]")
     (auto split: if_splits)

primrec rmatch :: "rx \<Rightarrow> pos \<Rightarrow> pos list" where
  \<comment> \<open>the positions where a match of the pattern starting at \<open>z\<close> can end, the preferred
      one first\<close>
  "rmatch Eps z = [z]"
| "rmatch (Atom neg items) z =
     (case snd z of [] \<Rightarrow> []
      | c # cs \<Rightarrow> if cls_match neg items c then [(c # fst z, cs)] else [])"
| "rmatch Dot z =
     (case snd z of [] \<Rightarrow> []
      | c # cs \<Rightarrow> if c = CHR 0x0A \<or> c = CHR 0x0D then [] else [(c # fst z, cs)])"
| "rmatch (Seq a b) z = concat (map (rmatch b) (rmatch a z))"
| "rmatch (Alt a b) z = rmatch a z @ rmatch b z"
| "rmatch (Rep lo hi greedy a) z = rep_iter (rmatch a) greedy lo hi z"
| "rmatch Bol z = (if fst z = [] then [z] else [])"
| "rmatch Eol z = (if snd z = [] then [z] else [])"
| "rmatch WordB z =
     (if (case fst z of [] \<Rightarrow> False | c # _ \<Rightarrow> is_word c)
         \<noteq> (case snd z of [] \<Rightarrow> False | c # _ \<Rightarrow> is_word c)
      then [z] else [])"
| "rmatch (Behind neg items) z =
     (case fst z of [] \<Rightarrow> [] | c # _ \<Rightarrow> if cls_match neg items c then [z] else [])"
| "rmatch (Ahead neg items) z =
     (case snd z of [] \<Rightarrow> [] | c # _ \<Rightarrow> if cls_match neg items c then [z] else [])"

text \<open>
  The \<open>i\<close> flag: a pattern character matches a subject character when their canonical
  forms agree, that is, when the subject character is the pattern character or its other
  case.  The flag is applied to the pattern, whose literal characters are given both
  cases.
\<close>

fun ci_item :: "cls \<Rightarrow> cls list" where
  "ci_item (Chr d) = [Chr d, Chr (char_upper d), Chr (char_lower d)]"
| "ci_item i = [i]"

primrec rx_ci :: "rx \<Rightarrow> rx" where
  "rx_ci Eps = Eps"
| "rx_ci (Atom neg items) = Atom neg (concat (map ci_item items))"
| "rx_ci Dot = Dot"
| "rx_ci (Seq a b) = Seq (rx_ci a) (rx_ci b)"
| "rx_ci (Alt a b) = Alt (rx_ci a) (rx_ci b)"
| "rx_ci (Rep lo hi greedy a) = Rep lo hi greedy (rx_ci a)"
| "rx_ci Bol = Bol"
| "rx_ci Eol = Eol"
| "rx_ci WordB = WordB"
| "rx_ci (Behind neg items) = Behind neg (concat (map ci_item items))"
| "rx_ci (Ahead neg items) = Ahead neg (concat (map ci_item items))"

definition with_flag :: "bool \<Rightarrow> rx \<Rightarrow> rx" where
  "with_flag ci r = (if ci then rx_ci r else r)"

definition chars :: "string \<Rightarrow> cls list" where
  \<comment> \<open>the members of a class such as \<open>[1-6]\<close>, written out\<close>
  "chars s = map Chr s"

definition lit :: "string \<Rightarrow> rx" where
  \<comment> \<open>a run of literal characters\<close>
  "lit s = foldr (\<lambda>c r. Seq (Atom False [Chr c]) r) s Eps"

definition seqs :: "rx list \<Rightarrow> rx" where
  \<comment> \<open>the terms of a pattern, one after the other\<close>
  "seqs rs = foldr Seq rs Eps"

definition alts :: "rx list \<Rightarrow> rx" where
  \<comment> \<open>\<open>a|b|c\<close>; the list is not empty\<close>
  "alts rs = foldr Alt (butlast rs) (last rs)"

abbreviation star :: "rx \<Rightarrow> rx" where "star r \<equiv> Rep 0 None True r"
abbreviation plus :: "rx \<Rightarrow> rx" where "plus r \<equiv> Rep 1 None True r"
abbreviation lazy_star :: "rx \<Rightarrow> rx" where "lazy_star r \<equiv> Rep 0 None False r"
abbreviation opt :: "rx \<Rightarrow> rx" where "opt r \<equiv> Rep 0 (Some 1) True r"
abbreviation quote :: rx where "quote \<equiv> Atom False [Chr (CHR 0x22), Chr (CHR 0x27)]"
abbreviation not_quote :: rx where "not_quote \<equiv> Atom True [Chr (CHR 0x22), Chr (CHR 0x27)]"
abbreviation any_char :: rx where "any_char \<equiv> Atom False [Space, NotSpace]"
abbreviation space :: rx where "space \<equiv> Atom False [Space]"

definition match_here :: "rx \<Rightarrow> string \<Rightarrow> string \<Rightarrow> nat option" where
  \<comment> \<open>the length of the match the engine prefers at this position, if there is one\<close>
  "match_here r b a =
     (case rmatch r (b, a) of [] \<Rightarrow> None | y # _ \<Rightarrow> Some (length a - length (snd y)))"

fun rx_find :: "rx \<Rightarrow> string \<Rightarrow> string \<Rightarrow> (string \<times> string \<times> string) option" where
  \<comment> \<open>the leftmost match in \<open>a\<close>, which follows the reversed text \<open>b\<close>: the text skipped,
      the text matched, the text left\<close>
  "rx_find r b [] =
     (case match_here r b [] of None \<Rightarrow> None | Some k \<Rightarrow> Some ([], [], []))"
| "rx_find r b (c # cs) =
     (case match_here r b (c # cs) of
        Some k \<Rightarrow> Some ([], take k (c # cs), drop k (c # cs))
      | None \<Rightarrow> map_option (\<lambda>(s, m, t). (c # s, m, t)) (rx_find r (c # b) cs))"

lemma rx_find_length:
  "rx_find r b a = Some (s, m, t) \<Longrightarrow> length a = length s + length m + length t"
proof (induction a arbitrary: b s)
  case Nil
  then show ?case by (auto split: option.splits)
next
  case (Cons c cs)
  show ?case
  proof (cases "match_here r b (c # cs)")
    case (Some k)
    with Cons.prems show ?thesis by auto
  next
    case None
    with Cons.prems obtain s' where "rx_find r (c # b) cs = Some (s', m, t)" and "s = c # s'"
      by auto
    with Cons.IH show ?thesis by fastforce
  qed
qed

function rx_match_all :: "rx \<Rightarrow> string \<Rightarrow> string \<Rightarrow> string list" where
  \<comment> \<open>the successive matches of a regex with the \<open>g\<close> flag; after an empty match the
      search resumes one character further\<close>
  "rx_match_all r b a =
     (case rx_find r b a of
        None \<Rightarrow> []
      | Some (s, m, t) \<Rightarrow>
          m # (if m \<noteq> [] then rx_match_all r (rev m @ rev s @ b) t
               else case t of [] \<Rightarrow> []
                    | c # cs \<Rightarrow> rx_match_all r (c # rev s @ b) cs))"
  by pat_completeness auto
termination
proof (relation "measure (\<lambda>(r, b, a). length a)", goal_cases)
  case 1
  show ?case by simp
next
  case (2 r b a x s y m t)
  then show ?case using rx_find_length [of r b a s m t] by (cases m) auto
next
  case (3 r b a x s y m t c cs)
  then show ?case using rx_find_length [of r b a s m t] by auto
qed

function rx_replace :: "rx \<Rightarrow> string \<Rightarrow> string \<Rightarrow> string \<Rightarrow> string" where
  \<comment> \<open>every match of a regex with the \<open>g\<close> flag replaced by \<open>rep\<close>\<close>
  "rx_replace r rep b a =
     (case rx_find r b a of
        None \<Rightarrow> a
      | Some (s, m, t) \<Rightarrow>
          s @ rep @ (if m \<noteq> [] then rx_replace r rep (rev m @ rev s @ b) t
                     else case t of [] \<Rightarrow> []
                          | c # cs \<Rightarrow> c # rx_replace r rep (c # rev s @ b) cs))"
  by pat_completeness auto
termination
proof (relation "measure (\<lambda>(r, rep, b, a). length a)", goal_cases)
  case 1
  show ?case by simp
next
  case (2 r rep b a x s y m t)
  then show ?case using rx_find_length [of r b a s m t] by (cases m) auto
next
  case (3 r rep b a x s y m t c cs)
  then show ?case using rx_find_length [of r b a s m t] by auto
qed

definition rx_test :: "bool \<Rightarrow> rx \<Rightarrow> string \<Rightarrow> bool" where
  \<comment> \<open>\<open>regex.test(s)\<close> for a regex without the \<open>g\<close> flag; \<open>ci\<close> is the \<open>i\<close> flag\<close>
  "rx_test ci r s = (rx_find (with_flag ci r) [] s \<noteq> None)"

definition replace_g :: "bool \<Rightarrow> rx \<Rightarrow> string \<Rightarrow> string \<Rightarrow> string" where
  \<comment> \<open>\<open>s.replace(regex, rep)\<close> with the \<open>g\<close> flag, for a replacement without \<open>$\<close> patterns\<close>
  "replace_g ci r rep s = rx_replace (with_flag ci r) rep [] s"

definition match_g :: "bool \<Rightarrow> rx \<Rightarrow> string \<Rightarrow> string list" where
  \<comment> \<open>the matched texts of \<open>s.matchAll(regex)\<close>, and of \<open>s.match(regex)\<close> with the \<open>g\<close> flag
      (\<open>[]\<close> where \<open>match\<close> returns \<open>null\<close>)\<close>
  "match_g ci r s = rx_match_all (with_flag ci r) [] s"

subsection \<open>More string methods\<close>

function rx_split_loop :: "rx \<Rightarrow> string \<Rightarrow> string \<Rightarrow> string \<Rightarrow> string list" where
  \<comment> \<open>the loop of \<open>split\<close>: \<open>b\<close> is the text before the position (reversed), \<open>cur\<close> the piece
      since the last separator (reversed).  A match that ends where the last separator
      ended is skipped.\<close>
  "rx_split_loop r b cur [] = [rev cur]"
| "rx_split_loop r b cur (c # cs) =
     (case match_here r b (c # cs) of
        None \<Rightarrow> rx_split_loop r (c # b) (c # cur) cs
      | Some k \<Rightarrow>
          if k = 0 then
            (if cur = [] then rx_split_loop r (c # b) (c # cur) cs
             else rev cur # rx_split_loop r (c # b) [c] cs)
          else rev cur # rx_split_loop r (rev (take k (c # cs)) @ b) [] (drop k (c # cs)))"
  by pat_completeness auto
termination
  by (relation "measure (\<lambda>(r, b, cur, a). length a)") auto

definition split_rx :: "bool \<Rightarrow> rx \<Rightarrow> string \<Rightarrow> string list" where
  \<comment> \<open>\<open>s.split(regex)\<close> for a regex without capture groups\<close>
  "split_rx ci r s =
     (if s = [] then (if match_here (with_flag ci r) [] [] = None then [[]] else [])
      else rx_split_loop (with_flag ci r) [] [] s)"

definition startsWith :: "string \<Rightarrow> string \<Rightarrow> bool" where
  \<comment> \<open>\<open>s.startsWith(p)\<close>\<close>
  "startsWith s p = (take (length p) s = p)"

fun join :: "string \<Rightarrow> string list \<Rightarrow> string" where
  \<comment> \<open>\<open>xs.join(sep)\<close>\<close>
  "join sep [] = []"
| "join sep [x] = x"
| "join sep (x # y # ys) = x @ sep @ join sep (y # ys)"

definition slice0 :: "int \<Rightarrow> 'a list \<Rightarrow> 'a list" where
  \<comment> \<open>\<open>xs.slice(0, n)\<close>; a negative \<open>n\<close> counts from the end\<close>
  "slice0 n xs = (if 0 \<le> n then take (nat n) xs else take (length xs - nat (- n)) xs)"

function dec_digits :: "int \<Rightarrow> string" where
  \<comment> \<open>the decimal digits of a number that is not negative\<close>
  "dec_digits n =
     (if n < 10 then [''0123456789'' ! nat n]
      else dec_digits (n div 10) @ [''0123456789'' ! nat (n mod 10)])"
  by pat_completeness auto
termination
  by (relation "measure nat") auto

definition show_int :: "int \<Rightarrow> string" where
  \<comment> \<open>an integer in a template literal or in \<open>JSON.stringify\<close>\<close>
  "show_int n = (if n < 0 then CHR ''-'' # dec_digits (- n) else dec_digits n)"

definition arrow :: string where
  \<comment> \<open>the character U+2192, which is outside the code units of the model, as its UTF-8 bytes\<close>
  "arrow = [CHR 0xE2, CHR 0x86, CHR 0x92]"

definition bullet :: string where
  \<comment> \<open>the character U+2022, as its UTF-8 bytes\<close>
  "bullet = [CHR 0xE2, CHR 0x80, CHR 0xA2]"

section \<open>HTML primitives of the lite renderer\<close>

definition decodeEntities :: "string \<Rightarrow> string" where
  \<comment> \<open>six global replacements, applied one after the other, \<open>&amp;\<close> first\<close>
  "decodeEntities str =
     replace_g False (lit ''&nbsp;'') '' ''
       (replace_g False (lit ''&#39;'') [CHR 0x27]
         (replace_g False (lit ''&quot;'') [CHR 0x22]
           (replace_g False (lit ''&gt;'') ''>''
             (replace_g False (lit ''&lt;'') ''<''
               (replace_g False (lit ''&amp;'') ''&'' str)))))"

section \<open>SPA detection\<close>

text \<open>
  \<open>detectSPA\<close> reads the raw HTML only.  Three of its reasons are built with
  \<open>toFixed\<close>; the model keeps the two lengths they are computed from instead of the
  formatted text.  The ratios are quotients of string lengths, compared with the
  constants 0.05, 0.10, 0.50 and 0.15; they are computed here as rationals.  Lengths
  are numbers of the program, modelled as integers.
\<close>

datatype reason =
    Signal string              \<comment> \<open>a reason given as a string literal in the source\<close>
  | VeryLowTextRatio int int   \<comment> \<open>text length and HTML size of \<open>Very low text ratio (..% text in ..KB HTML)\<close>\<close>
  | LowTextRatio int int       \<comment> \<open>\<open>Low text ratio (..%)\<close>\<close>
  | ScriptHeavy int int        \<comment> \<open>script size and HTML size of \<open>Script-heavy (..% of page is JS)\<close>\<close>

record detection =
  isSPA :: bool
  score :: int
  confidence :: string
  reasons :: "reason list"

definition spaSignals :: "(rx \<times> string \<times> int) list" where
  "spaSignals =
    [(seqs [lit ''<div'', plus space, lit ''id='', quote, lit ''root'', quote, star space, lit ''></div>''],
        ''React root div (empty)'', 4),
     (seqs [lit ''<div'', plus space, lit ''id='', quote, lit ''app'', quote, star space, lit ''></div>''],
        ''Vue/React app div (empty)'', 4),
     (seqs [lit ''<div'', plus space, lit ''id='', quote, lit ''__next'', quote], ''Next.js root'', 3),
     (lit ''<app-root>'', ''Angular app-root'', 4),
     (lit ''data-reactroot'', ''React data attribute'', 3),
     (lit ''data-vue-app'', ''Vue 3 attribute'', 4),
     (lit ''ng-version='', ''Angular version attribute'', 3),
     (lit ''__nuxt'', ''Nuxt.js signal'', 2),
     (lit ''window.__NEXT_DATA__'', ''Next.js data hydration'', 3),
     (lit ''window.__INITIAL_STATE__'', ''Redux initial state'', 2),
     (lit ''svelte-'', ''Svelte component'', 2),
     (lit ''ember-application'', ''Ember.js'', 3)]"

definition rx_script :: rx where
  \<comment> \<open>\<open><script[\s\S]*?<\/script>\<close>\<close>
  "rx_script = seqs [lit ''<script'', lazy_star any_char, lit ''</script>'']"

definition rx_style :: rx where
  \<comment> \<open>\<open><style[\s\S]*?<\/style>\<close>\<close>
  "rx_style = seqs [lit ''<style'', lazy_star any_char, lit ''</style>'']"

definition rx_tag :: rx where
  \<comment> \<open>\<open><[^>]+>\<close>\<close>
  "rx_tag = seqs [lit ''<'', plus (Atom True [Chr CHR ''>'']), lit ''>'']"

definition rx_spaces :: rx where
  \<comment> \<open>\<open>\s+\<close>\<close>
  "rx_spaces = plus space"

definition skeletonPatterns :: "rx list" where
  "skeletonPatterns =
    [seqs [lit ''class='', quote, star not_quote, lit ''loading'', star not_quote, quote],
     seqs [lit ''class='', quote, star not_quote, lit ''skeleton'', star not_quote, quote],
     seqs [lit ''class='', quote, star not_quote, lit ''spinner'', star not_quote, quote],
     seqs [lit ''aria-label='', quote, lit ''loading'', quote]]"

definition rx_heading :: rx where
  \<comment> \<open>\<open><h[1-6][^>]*>[\s\S]*?<\/h[1-6]>\<close>\<close>
  "rx_heading =
     seqs [lit ''<h'', Atom False (chars ''123456''), star (Atom True [Chr CHR ''>'']), lit ''>'',
           lazy_star any_char, lit ''</h'', Atom False (chars ''123456''), lit ''>'']"

definition rx_paragraph :: rx where
  \<comment> \<open>\<open><p[^>]*>[^<]{20,}<\/p>\<close>\<close>
  "rx_paragraph =
     seqs [lit ''<p'', star (Atom True [Chr CHR ''>'']), lit ''>'',
           Rep 20 None True (Atom True [Chr CHR ''<'']), lit ''</p>'']"

definition rx_content_react :: rx where
  \<comment> \<open>\<open>content=["']React\<close>\<close>
  "rx_content_react = seqs [lit ''content='', quote, lit ''React'']"

definition rx_content_next :: rx where
  \<comment> \<open>\<open>content=["']Next\.js\<close>\<close>
  "rx_content_next = seqs [lit ''content='', quote, lit ''Next.js'']"

definition rx_ldjson :: rx where
  \<comment> \<open>\<open>application\/ld\+json\<close>\<close>
  "rx_ldjson = lit ''application/ld+json''"

definition scriptSize :: "string \<Rightarrow> int" where
  \<comment> \<open>the total length of the script blocks\<close>
  "scriptSize html = sum_list (map strlen (match_g True rx_script html))"

definition textContent_of :: "string \<Rightarrow> string" where
  \<comment> \<open>the local \<open>textContent\<close>: scripts, styles and tags removed, white space collapsed\<close>
  "textContent_of html =
     trim (replace_g False rx_spaces '' ''
            (replace_g False rx_tag '' ''
              (replace_g True rx_style []
                (replace_g True rx_script [] html))))"

definition ratio :: "int \<Rightarrow> int \<Rightarrow> rat" where
  \<comment> \<open>\<open>n / Math.max(htmlSize, 1)\<close>\<close>
  "ratio n htmlSize = of_int n / of_int (max htmlSize 1)"

definition skeletonHits :: "string \<Rightarrow> nat" where
  "skeletonHits html = length (filter (\<lambda>p. rx_test True p html) skeletonPatterns)"

text \<open>
  The body of \<open>detectSPA\<close> updates \<open>reasons\<close> and \<open>score\<close> in six steps; each step is a
  function on the pair of the two.
\<close>

type_synonym det_state = "reason list \<times> int"

definition scan_signals :: "string \<Rightarrow> det_state" where
  \<comment> \<open>1. the loop over \<open>spaSignals\<close>\<close>
  "scan_signals html =
     foldl (\<lambda>(rs, sc) (pattern, reason, weight).
              if rx_test True pattern html then (rs @ [Signal reason], sc + weight) else (rs, sc))
           ([], 0) spaSignals"

fun text_ratio_step :: "int \<Rightarrow> int \<Rightarrow> det_state \<Rightarrow> det_state" where
  \<comment> \<open>2. low text-to-HTML ratio\<close>
  "text_ratio_step textLen htmlSize (rs, sc) =
     (if ratio textLen htmlSize < 5 / 100 \<and> htmlSize > 5000
        then (rs @ [VeryLowTextRatio textLen htmlSize], sc + 4)
      else if ratio textLen htmlSize < 10 / 100 \<and> htmlSize > 10000
        then (rs @ [LowTextRatio textLen htmlSize], sc + 2)
      else (rs, sc))"

fun script_ratio_step :: "int \<Rightarrow> int \<Rightarrow> det_state \<Rightarrow> det_state" where
  "script_ratio_step scriptSz htmlSize (rs, sc) =
     (if ratio scriptSz htmlSize > 50 / 100
        then (rs @ [ScriptHeavy scriptSz htmlSize], sc + 2)
      else (rs, sc))"

fun skeleton_step :: "string \<Rightarrow> det_state \<Rightarrow> det_state" where
  \<comment> \<open>3. loading and skeleton patterns\<close>
  "skeleton_step html (rs, sc) =
     (if skeletonHits html \<ge> 2
        then (rs @ [Signal ''Loading skeleton patterns detected''], sc + 2)
      else (rs, sc))"

fun semantic_step :: "string \<Rightarrow> int \<Rightarrow> det_state \<Rightarrow> det_state" where
  \<comment> \<open>4. almost no headings or paragraphs\<close>
  "semantic_step html htmlSize (rs, sc) =
     (if length (match_g True rx_heading html) = 0 \<and> length (match_g True rx_paragraph html) < 3
         \<and> htmlSize > 20000
        then (rs @ [Signal ''Large HTML with almost no semantic content''], sc + 3)
      else (rs, sc))"

fun meta_step :: "string \<Rightarrow> det_state \<Rightarrow> det_state" where
  \<comment> \<open>5. meta generator\<close>
  "meta_step html (rs, sc) =
     (if rx_test True rx_content_react html \<or> rx_test True rx_content_next html
        then (rs @ [Signal ''Meta generator = React/Next.js''], sc + 2)
      else (rs, sc))"

fun ldjson_step :: "string \<Rightarrow> int \<Rightarrow> int \<Rightarrow> det_state \<Rightarrow> det_state" where
  \<comment> \<open>6. structured data with enough text: the score is lowered, no reason is pushed\<close>
  "ldjson_step html textLen htmlSize (rs, sc) =
     (if rx_test True rx_ldjson html \<and> ratio textLen htmlSize > 15 / 100
        then (rs, sc - 2)
      else (rs, sc))"

fun report :: "det_state \<Rightarrow> detection" where
  "report (rs, sc) =
     \<lparr> isSPA = (sc \<ge> 4),
       score = sc,
       confidence = (if sc \<ge> 8 then ''high'' else if sc \<ge> 4 then ''medium'' else ''low''),
       reasons = rs \<rparr>"

definition detect_steps :: "string \<Rightarrow> int \<Rightarrow> int \<Rightarrow> int \<Rightarrow> detection" where
  \<comment> \<open>the steps, given the locals \<open>htmlSize\<close>, \<open>scriptSize\<close> and \<open>textContent.length\<close>\<close>
  "detect_steps html htmlSize scriptSz textLen =
     report
       (ldjson_step html textLen htmlSize
         (meta_step html
           (semantic_step html htmlSize
             (skeleton_step html
               (script_ratio_step scriptSz htmlSize
                 (text_ratio_step textLen htmlSize
                   (scan_signals html)))))))"

definition detectSPA :: "string \<Rightarrow> detection" where
  "detectSPA html =
     detect_steps html (strlen html) (scriptSize html) (strlen (textContent_of html))"

subsection \<open>The signal table of the specification\<close>

text \<open>
  The specification describes the detector by a table of signals with weights; its last
  row, the \<open>application/ld+json\<close> signal, has the negative weight \<open>-2\<close>.  A signal is
  modelled by its name and weight, and \<open>spec_fired_signals\<close> lists the rows of the table
  whose condition holds, in the order of the table.  The names of the rows that give a
  reason are the reasons' texts (without the formatted numbers).
\<close>

type_synonym signal = "string \<times> int"

definition very_low_text :: "string \<Rightarrow> bool" where
  "very_low_text html =
     (ratio (strlen (textContent_of html)) (strlen html) < 5 / 100 \<and> strlen html > 5000)"

definition low_text :: "string \<Rightarrow> bool" where
  "low_text html =
     (\<not> very_low_text html \<and>
      ratio (strlen (textContent_of html)) (strlen html) < 10 / 100 \<and> strlen html > 10000)"

definition script_heavy :: "string \<Rightarrow> bool" where
  "script_heavy html = (ratio (scriptSize html) (strlen html) > 50 / 100)"

definition no_semantic_content :: "string \<Rightarrow> bool" where
  "no_semantic_content html =
     (length (match_g True rx_heading html) = 0 \<and> length (match_g True rx_paragraph html) < 3
      \<and> strlen html > 20000)"

definition meta_generator :: "string \<Rightarrow> bool" where
  "meta_generator html = (rx_test True rx_content_react html \<or> rx_test True rx_content_next html)"

definition ldjson_fires :: "string \<Rightarrow> bool" where
  "ldjson_fires html =
     (rx_test True rx_ldjson html \<and> ratio (strlen (textContent_of html)) (strlen html) > 15 / 100)"

definition ldjson_signal :: signal where
  "ldjson_signal = (''application/ld+json with text ratio above 0.15'', - 2)"

definition signal_table :: "string \<Rightarrow> (bool \<times> signal) list" where
  \<comment> \<open>the rows of the table, each with the truth value of its condition on the page\<close>
  "signal_table html =
     map (\<lambda>row. (rx_test True (fst row) html, snd row)) spaSignals
     @ [(very_low_text html, (''Very low text ratio'', 4)),
        (low_text html, (''Low text ratio'', 2)),
        (script_heavy html, (''Script-heavy'', 2)),
        (skeletonHits html \<ge> 2, (''Loading skeleton patterns detected'', 2)),
        (no_semantic_content html, (''Large HTML with almost no semantic content'', 3)),
        (meta_generator html, (''Meta generator = React/Next.js'', 2)),
        (ldjson_fires html, ldjson_signal)]"

definition spec_fired_signals :: "string \<Rightarrow> signal list" where
  "spec_fired_signals html = map snd (filter fst (signal_table html))"

fun reason_name :: "reason \<Rightarrow> string" where
  "reason_name (Signal s) = s"
| "reason_name (VeryLowTextRatio t h) = ''Very low text ratio''"
| "reason_name (LowTextRatio t h) = ''Low text ratio''"
| "reason_name (ScriptHeavy t h) = ''Script-heavy''"


text \<open>The framework signals that match a page, in the order of the table.\<close>

definition framework_fired :: "string \<Rightarrow> signal list" where
  "framework_fired html = map snd (filter (\<lambda>row. rx_test True (fst row) html) spaSignals)"

section \<open>The result cache\<close>

text \<open>
  \<open>PageCache\<close> keeps its entries in the SQLite table \<open>page_cache\<close>.  The table is modelled
  as the list of its rows in insertion order, with the counter of the \<open>AUTOINCREMENT\<close>
  key.  Every method that reads the clock takes the value of \<open>Date.now()\<close> as an
  argument.  The column \<open>result_json\<close> holds a JSON text of an abstract type \<open>'j\<close>;
  \<open>JSON.stringify\<close> after \<open>stripUnserializable\<close>, \<open>JSON.parse\<close> (\<open>None\<close> when it throws) and
  the field access \<open>result?.backend\<close> are the three components of a \<open>json_codec\<close>.
\<close>

record 'j row =
  row_id :: nat
  url :: string
  query :: string
  backend :: string
  result_json :: 'j
  created_at :: int
  expires_at :: int
  hit_count :: int
  last_hit :: int

record 'j page_cache =
  ttlMs :: int
  maxEntries :: nat
  rows :: "'j row list"
  next_id :: nat

record ('r, 'j) json_codec =
  stringify :: "'r \<Rightarrow> 'j"
  parse :: "'j \<Rightarrow> 'r option"
  backend_of :: "'r \<Rightarrow> string option"

definition DEFAULT_TTL_MS :: int where "DEFAULT_TTL_MS = 10 * 60 * 1000"
definition DEFAULT_MAX_ENTRIES :: nat where "DEFAULT_MAX_ENTRIES = 500"

definition new_cache :: "int option \<Rightarrow> nat option \<Rightarrow> 'j row list \<Rightarrow> nat \<Rightarrow> 'j page_cache" where
  \<comment> \<open>the constructor, opening the table stored at \<open>dbPath\<close>\<close>
  "new_cache opt_ttlMs opt_maxEntries stored_rows stored_next_id =
     \<lparr> ttlMs = (case opt_ttlMs of None \<Rightarrow> DEFAULT_TTL_MS | Some t \<Rightarrow> t),
       maxEntries = (case opt_maxEntries of None \<Rightarrow> DEFAULT_MAX_ENTRIES | Some m \<Rightarrow> m),
       rows = stored_rows,
       next_id = stored_next_id \<rparr>"

definition select_row :: "string \<Rightarrow> string \<Rightarrow> 'j row list \<Rightarrow> 'j row option" where
  \<comment> \<open>\<open>SELECT ... WHERE url = ? AND query = ? LIMIT 1\<close>\<close>
  "select_row u q rs = find (\<lambda>r. url r = u \<and> query r = q) rs"

definition delete_id :: "nat \<Rightarrow> 'j row list \<Rightarrow> 'j row list" where
  \<comment> \<open>\<open>DELETE FROM page_cache WHERE id = ?\<close>\<close>
  "delete_id i rs = filter (\<lambda>r. row_id r \<noteq> i) rs"

definition touch_id :: "int \<Rightarrow> nat \<Rightarrow> 'j row list \<Rightarrow> 'j row list" where
  \<comment> \<open>\<open>UPDATE page_cache SET hit_count = hit_count + 1, last_hit = ? WHERE id = ?\<close>\<close>
  "touch_id now i rs =
     map (\<lambda>r. if row_id r = i then r\<lparr>hit_count := hit_count r + 1, last_hit := now\<rparr> else r) rs"

definition cache_get ::
  "('r, 'j) json_codec \<Rightarrow> int \<Rightarrow> string \<Rightarrow> string \<Rightarrow> 'j page_cache \<Rightarrow> 'r option \<times> 'j page_cache" where
  \<comment> \<open>\<open>get(url, query)\<close>; \<open>None\<close> is \<open>null\<close>\<close>
  "cache_get J now u q c =
     (case select_row u q (rows c) of
        None \<Rightarrow> (None, c)
      | Some r \<Rightarrow>
          if expires_at r < now then (None, c\<lparr>rows := delete_id (row_id r) (rows c)\<rparr>)
          else (parse J (result_json r), c\<lparr>rows := touch_id now (row_id r) (rows c)\<rparr>))"

definition upsert ::
  "string \<Rightarrow> string \<Rightarrow> string \<Rightarrow> 'j \<Rightarrow> int \<Rightarrow> int \<Rightarrow> 'j page_cache \<Rightarrow> 'j page_cache" where
  \<comment> \<open>\<open>INSERT ... ON CONFLICT (url, query) DO UPDATE SET ...\<close>\<close>
  "upsert u q b j now expiresAt c =
     (if list_ex (\<lambda>r. url r = u \<and> query r = q) (rows c)
      then c\<lparr>rows := map (\<lambda>r. if url r = u \<and> query r = q
                                then r\<lparr>backend := b, result_json := j, created_at := now,
                                       expires_at := expiresAt, hit_count := 0, last_hit := now\<rparr>
                                else r) (rows c)\<rparr>
      else c\<lparr>rows := rows c @ [\<lparr>row_id = next_id c, url = u, query = q, backend = b,
                                  result_json = j, created_at = now, expires_at = expiresAt,
                                  hit_count = 0, last_hit = now\<rparr>],
              next_id := Suc (next_id c)\<rparr>)"

definition evict_key :: "int \<Rightarrow> 'j row \<Rightarrow> nat \<times> int" where
  \<comment> \<open>\<open>ORDER BY CASE WHEN expires_at < now THEN 0 ELSE 1 END ASC, last_hit ASC\<close>\<close>
  "evict_key now r = (if expires_at r < now then 0 else 1, last_hit r)"

definition victims :: "int \<Rightarrow> nat \<Rightarrow> 'j row list \<Rightarrow> 'j row list" where
  \<comment> \<open>the rows selected by the subquery of the eviction, \<open>k\<close> being its \<open>LIMIT\<close>\<close>
  "victims now k rs = take k (sort_key (evict_key now) rs)"

definition evictIfNeeded :: "int \<Rightarrow> 'j page_cache \<Rightarrow> 'j page_cache" where
  \<comment> \<open>\<open>_evictIfNeeded()\<close>; rows with equal keys are taken in table order\<close>
  "evictIfNeeded now c =
     (let count = length (rows c)
      in if count \<le> maxEntries c then c
         else
           let toRemove = count - maxEntries c;
               ids = map row_id (victims now toRemove (rows c))
           in c\<lparr>rows := filter (\<lambda>r. row_id r \<notin> set ids) (rows c)\<rparr>)"

definition cache_store ::
  "('r, 'j) json_codec \<Rightarrow> int \<Rightarrow> string \<Rightarrow> string \<Rightarrow> 'r \<Rightarrow> int option \<Rightarrow> 'j page_cache
     \<Rightarrow> 'j page_cache" where
  \<comment> \<open>the first part of \<open>set\<close>, up to the \<open>INSERT\<close> statement\<close>
  "cache_store J now u q result opt_ttlMs c =
     (let ttl = (case opt_ttlMs of None \<Rightarrow> ttlMs c | Some t \<Rightarrow> t);
          expiresAt = now + ttl;
          b = (case backend_of J result of None \<Rightarrow> ''unknown'' | Some b \<Rightarrow> b)
      in upsert u q b (stringify J result) now expiresAt c)"

definition cache_set ::
  "('r, 'j) json_codec \<Rightarrow> int \<Rightarrow> int \<Rightarrow> string \<Rightarrow> string \<Rightarrow> 'r \<Rightarrow> int option \<Rightarrow> 'j page_cache
     \<Rightarrow> 'j page_cache" where
  \<comment> \<open>\<open>set(url, query, result, ttlMs)\<close>; \<open>now\<close> is read at the start, \<open>now_evict\<close> by the eviction\<close>
  "cache_set J now now_evict u q result opt_ttlMs c =
     evictIfNeeded now_evict (cache_store J now u q result opt_ttlMs c)"

type_synonym 'r set_call = "int \<times> int \<times> string \<times> string \<times> 'r \<times> int option"
  \<comment> \<open>the arguments of one call of \<open>set\<close>, with its two readings of the clock\<close>

fun run_set :: "('r, 'j) json_codec \<Rightarrow> 'j page_cache \<Rightarrow> 'r set_call \<Rightarrow> 'j page_cache" where
  "run_set J c (now, now_evict, u, q, result, opt_ttlMs) =
     cache_set J now now_evict u q result opt_ttlMs c"

definition run_sets :: "('r, 'j) json_codec \<Rightarrow> 'r set_call list \<Rightarrow> 'j page_cache \<Rightarrow> 'j page_cache" where
  \<comment> \<open>a sequence of calls of \<open>set\<close>\<close>
  "run_sets J calls c = foldl (run_set J) c calls"

definition evicted_before :: "int \<Rightarrow> 'j row \<Rightarrow> 'j row \<Rightarrow> bool" where
  \<comment> \<open>the order of the eviction: expired rows first, then ascending \<open>last_hit\<close>\<close>
  "evicted_before now d x =
     ((expires_at d < now \<and> \<not> expires_at x < now)
      \<or> ((expires_at d < now) = (expires_at x < now) \<and> last_hit d \<le> last_hit x))"

definition invalidate :: "string \<Rightarrow> 'j page_cache \<Rightarrow> nat \<times> 'j page_cache" where
  \<comment> \<open>\<open>DELETE FROM page_cache WHERE url = ?\<close>, with the number of rows removed\<close>
  "invalidate u c =
     (length (filter (\<lambda>r. url r = u) (rows c)), c\<lparr>rows := filter (\<lambda>r. url r \<noteq> u) (rows c)\<rparr>)"

definition purgeExpired :: "int \<Rightarrow> 'j page_cache \<Rightarrow> nat \<times> 'j page_cache" where
  "purgeExpired now c =
     (length (filter (\<lambda>r. expires_at r < now) (rows c)),
      c\<lparr>rows := filter (\<lambda>r. \<not> expires_at r < now) (rows c)\<rparr>)"

record cache_stats =
  entries :: nat
  expired :: nat
  active :: int
  backends :: "(string \<times> nat) list"
  oldestMs :: "int option"
  topHits :: "(string \<times> string \<times> int \<times> string) list"

definition stats :: "int \<Rightarrow> int \<Rightarrow> 'j page_cache \<Rightarrow> cache_stats" where
  \<comment> \<open>\<open>stats()\<close>; the clock is read for the expired count and again for \<open>oldestMs\<close>\<close>
  "stats now now2 c =
     (let total = length (rows c);
          n_expired = length (filter (\<lambda>r. expires_at r < now) (rows c));
          oldest = (if rows c = [] then None else Some (Min (set (map created_at (rows c)))))
      in \<lparr> entries = total,
           expired = n_expired,
           active = int total - int n_expired,
           backends = map (\<lambda>b. (b, length (filter (\<lambda>r. backend r = b) (rows c))))
                          (remdups (map backend (rows c))),
           oldestMs = (case oldest of None \<Rightarrow> None
                       | Some t \<Rightarrow> if t = 0 then None else Some (now2 - t)),
           topHits = map (\<lambda>r. (url r, query r, hit_count r, backend r))
                         (take 5 (sort_key (\<lambda>r. - hit_count r) (rows c))) \<rparr>)"

definition wf_table :: "'j page_cache \<Rightarrow> bool" where
  \<comment> \<open>the constraints of the table: the primary key, the unique index on \<open>(url, query)\<close>,
      and keys below the \<open>AUTOINCREMENT\<close> counter\<close>
  "wf_table c =
     (distinct (map row_id (rows c)) \<and> distinct (map (\<lambda>r. (url r, query r)) (rows c))
      \<and> list_all (\<lambda>r. row_id r < next_id c) (rows c))"

section \<open>The page record and the semantic chunker\<close>

record heading =
  level :: nat
  htext :: string

record link =
  ltext :: string
  href :: string

record field =
  tag :: string
  ftype :: "string option"
  fname :: "string option"
  placeholder :: "string option"
  required :: bool

record form =
  action :: "string option"
  form_method :: string
  form_fields :: "field list"

record page =
  page_url :: string
  title :: "string option"
  meta :: "(string \<times> string) list"
  headings :: "heading list"
  links :: "link list"
  forms :: "form list"
  textContent :: string
  page_stats :: "(string \<times> int) list option"
  httpStatus :: "int option"
  contentType :: "string option"
  renderer :: "string option"

datatype chunk_meta =
    IsSummary                 \<comment> \<open>\<open>{ isSummary: true }\<close>\<close>
  | IsNav                     \<comment> \<open>\<open>{ isNav: true }\<close>\<close>
  | Partial int               \<comment> \<open>\<open>{ partial: true, part: sentIdx }\<close>\<close>
  | NoMeta                    \<comment> \<open>\<open>{}\<close>\<close>
  | FormMeta form             \<comment> \<open>\<open>{ form }\<close>\<close>
  | LinkCount int             \<comment> \<open>\<open>{ linkCount: n }\<close>\<close>

record chunk =
  chunk_id :: int
  chunk_type :: string
  chunk_section :: "string option"
  chunk_text :: string
  chunk_score :: int
  chunk_meta :: chunk_meta
  relevance :: "int option"

record block_context =
  linkDensity :: "rat option"
  underHeading :: bool

definition rx_digits :: rx where
  \<comment> \<open>\<open>\d+\<close>\<close>
  "rx_digits = plus (Atom False [Digit])"

definition rx_code :: rx where
  \<comment> \<open>\<open>`[^`]+`|```|\bconst\b|\bfunction\b|\bimport\b\<close>\<close>
  "rx_code =
     alts [seqs [lit ''`'', plus (Atom True [Chr CHR ''`'']), lit ''`''],
           lit ''```'',
           seqs [WordB, lit ''const'', WordB],
           seqs [WordB, lit ''function'', WordB],
           seqs [WordB, lit ''import'', WordB]]"

definition rx_nav_start :: rx where
  \<comment> \<open>\<open>^(home|menu|search|login|sign in|sign up|subscribe|newsletter|cookie|privacy|terms)\<close>\<close>
  "rx_nav_start =
     Seq Bol (alts (map lit [''home'', ''menu'', ''search'', ''login'', ''sign in'', ''sign up'',
                             ''subscribe'', ''newsletter'', ''cookie'', ''privacy'', ''terms'']))"

definition rx_boilerplate :: rx where
  \<comment> \<open>\<open>copyright|all rights reserved|powered by\<close>\<close>
  "rx_boilerplate = alts (map lit [''copyright'', ''all rights reserved'', ''powered by''])"

definition rx_content_signal :: rx where
  \<comment> \<open>\<open>(?:how to|step|guide|tutorial|example|note:|warning:|important:)\<close>\<close>
  "rx_content_signal =
     alts (map lit [''how to'', ''step'', ''guide'', ''tutorial'', ''example'', ''note:'',
                    ''warning:'', ''important:''])"

definition scoreBlock :: "string \<Rightarrow> block_context \<Rightarrow> int" where
  "scoreBlock txt context =
     (let lower = toLowerCase txt;
          len = strlen txt
      in (if len \<ge> 50 \<and> len \<le> 500 then 2
          else if len > 500 \<and> len \<le> 2000 then 1
          else if len < 20 then - 2 else 0)
         + (if rx_test False rx_digits txt then 1 else 0)
         + (if rx_test False rx_code txt then 2 else 0)
         + (if rx_test True rx_nav_start lower then - 3 else 0)
         + (if rx_test True rx_boilerplate lower then - 2 else 0)
         + (case linkDensity context of None \<Rightarrow> 0 | Some d \<Rightarrow> if d > 7 / 10 then - 2 else 0)
         + (if underHeading context then 1 else 0)
         + (if rx_test True rx_content_signal lower then 2 else 0))"

record type_meta =
  isCode :: bool
  src_tag :: "string option"
  standalone :: bool

definition no_type_meta :: type_meta where
  \<comment> \<open>the default \<open>meta = {}\<close>\<close>
  "no_type_meta = \<lparr> isCode = False, src_tag = None, standalone = False \<rparr>"

definition rx_code_start :: rx where
  \<comment> \<open>\<open>^(```|~~~|\$\s|\>\s)\<close>\<close>
  "rx_code_start =
     Seq Bol (alts [lit ''```'', lit ''~~~'', seqs [lit ''$'', space], seqs [lit ''>'', space]])"

definition rx_heading_tag :: rx where
  \<comment> \<open>\<open>^h[1-6]$\<close>\<close>
  "rx_heading_tag = seqs [Bol, lit ''h'', Atom False (chars ''123456''), Eol]"

definition rx_callout :: rx where
  \<comment> \<open>\<open>^(note|warning|tip|important|caution|info):\<close>\<close>
  "rx_callout =
     seqs [Bol, alts (map lit [''note'', ''warning'', ''tip'', ''important'', ''caution'', ''info'']),
           lit '':'']"

definition rx_url :: rx where
  \<comment> \<open>\<open>\b(http|https):\/\/\<close>\<close>
  "rx_url = seqs [WordB, alts [lit ''http'', lit ''https''], lit ''://'']"

definition detectType :: "string \<Rightarrow> type_meta \<Rightarrow> string" where
  "detectType txt m =
     (let lower = trim (toLowerCase txt)
      in if isCode m \<or> rx_test False rx_code_start txt then ''code''
         else if (case src_tag m of None \<Rightarrow> False | Some t \<Rightarrow> t \<noteq> [] \<and> rx_test False rx_heading_tag t)
           then ''heading''
         else if src_tag m = Some ''li''
                 \<or> startsWith lower bullet \<or> startsWith lower ''-'' \<or> startsWith lower ''*''
           then ''list-item''
         else if rx_test True rx_callout lower then ''callout''
         else if src_tag m = Some ''td'' \<or> src_tag m = Some ''th'' then ''table-cell''
         else if strlen txt < 50 \<and> standalone m then ''label''
         else if rx_test False rx_url txt \<and> length (split_rx False (lit '' '') txt) < 5 then ''link''
         else ''paragraph'')"

definition rx_sentence_gap :: rx where
  \<comment> \<open>\<open>(?<=[.!?])\s+(?=[A-Z])\<close>\<close>
  "rx_sentence_gap =
     seqs [Behind False (chars ''.!?''), plus space,
           Ahead False (chars ''ABCDEFGHIJKLMNOPQRSTUVWXYZ'')]"

definition splitSentences :: "string \<Rightarrow> string list" where
  "splitSentences txt =
     filter (\<lambda>s. strlen s > 10) (map trim (split_rx False rx_sentence_gap txt))"

record chunk_opts =
  maxChunkSize :: "int option"
  minScore :: "int option"
  includeNav :: "bool option"

definition default_opts :: chunk_opts where
  \<comment> \<open>\<open>opts = {}\<close>\<close>
  "default_opts = \<lparr> maxChunkSize = None, minScore = None, includeNav = None \<rparr>"

definition opt_maxSize :: "chunk_opts \<Rightarrow> int" where
  \<comment> \<open>\<open>opts.maxChunkSize || 800\<close>\<close>
  "opt_maxSize opts = (case maxChunkSize opts of None \<Rightarrow> 800 | Some n \<Rightarrow> if n = 0 then 800 else n)"

definition opt_minScore :: "chunk_opts \<Rightarrow> int" where
  \<comment> \<open>\<open>opts.minScore !== undefined ? opts.minScore : -1\<close>\<close>
  "opt_minScore opts = (case minScore opts of None \<Rightarrow> - 1 | Some n \<Rightarrow> n)"

definition opt_includeNav :: "chunk_opts \<Rightarrow> bool" where
  \<comment> \<open>\<open>opts.includeNav || false\<close>\<close>
  "opt_includeNav opts = (case includeNav opts of None \<Rightarrow> False | Some b \<Rightarrow> b)"

type_synonym chunk_state = "chunk list \<times> int \<times> string option"
  \<comment> \<open>the variables \<open>chunks\<close>, \<open>chunkId\<close> and \<open>currentSection\<close>\<close>

definition push_chunk ::
  "string \<Rightarrow> string \<Rightarrow> string option \<Rightarrow> int \<Rightarrow> chunk_meta \<Rightarrow> chunk list \<times> int \<Rightarrow> chunk list \<times> int" where
  \<comment> \<open>\<open>chunks.push({ id: chunkId++, ... })\<close>\<close>
  "push_chunk ty txt sec sc m st =
     (fst st @ [\<lparr> chunk_id = snd st, chunk_type = ty, chunk_section = sec, chunk_text = txt,
                  chunk_score = sc, chunk_meta = m, relevance = None \<rparr>],
      snd st + 1)"

fun sentence_loop ::
  "int \<Rightarrow> int \<Rightarrow> int \<Rightarrow> string option \<Rightarrow> string list \<Rightarrow> string \<Rightarrow> int \<Rightarrow> chunk list \<times> int
     \<Rightarrow> string \<times> int \<times> chunk list \<times> int" where
  \<comment> \<open>the loop over the sentences of a large paragraph, with the variables \<open>current\<close> and
      \<open>sentIdx\<close>\<close>
  "sentence_loop maxSize minSc sc sec [] current sentIdx st = (current, sentIdx, st)"
| "sentence_loop maxSize minSc sc sec (sentence # rest) current sentIdx st =
     (if strlen (current @ '' '' @ sentence) > maxSize \<and> current \<noteq> []
      then sentence_loop maxSize minSc sc sec rest sentence (sentIdx + 1)
             (if sc \<ge> minSc
              then push_chunk (detectType current no_type_meta) (trim current) sec sc (Partial sentIdx) st
              else st)
      else sentence_loop maxSize minSc sc sec rest
             (if current \<noteq> [] then current @ '' '' @ sentence else sentence) sentIdx st)"

definition rx_blank_lines :: rx where
  \<comment> \<open>\<open>\n{2,}\<close>\<close>
  "rx_blank_lines = Rep 2 None True (Atom False [Chr (CHR 0x0A)])"

definition rx_http :: rx where
  \<comment> \<open>\<open>https?:\/\/\<close>\<close>
  "rx_http = seqs [lit ''http'', opt (lit ''s''), lit ''://'']"

definition headingTexts :: "heading list \<Rightarrow> string list" where
  "headingTexts hs = map (\<lambda>h. trim (toLowerCase (htext h))) hs"

fun findIndex :: "('a \<Rightarrow> bool) \<Rightarrow> 'a list \<Rightarrow> nat option" where
  \<comment> \<open>\<open>xs.findIndex(p)\<close>, \<open>None\<close> for \<open>-1\<close>\<close>
  "findIndex p [] = None"
| "findIndex p (x # xs) = (if p x then Some 0 else map_option Suc (findIndex p xs))"

definition heading_match :: "heading list \<Rightarrow> string \<Rightarrow> nat option" where
  \<comment> \<open>the local \<open>headingMatch\<close>\<close>
  "heading_match hs para =
     (let paraLower = trim (toLowerCase para)
      in findIndex (\<lambda>h. paraLower = h \<or> startsWith paraLower h) (headingTexts hs))"

definition emit_paragraph ::
  "int \<Rightarrow> int \<Rightarrow> bool \<Rightarrow> string \<Rightarrow> string option \<Rightarrow> chunk list \<times> int \<Rightarrow> chunk list \<times> int" where
  \<comment> \<open>the body of the loop for a paragraph that is not a heading\<close>
  "emit_paragraph maxSize minSc incNav para sec st =
     (let wordCount = int (length (split_rx False rx_spaces para));
          linkMatches = int (length (match_g False rx_http para));
          density = (if wordCount > 0 then of_int linkMatches / of_int wordCount else (0::rat));
          sc = scoreBlock para \<lparr> linkDensity = Some density, underHeading = (sec \<noteq> None \<and> sec \<noteq> Some []) \<rparr>
      in if \<not> incNav \<and> density > 5 / 10 then st
         else if strlen para > maxSize then
           (case sentence_loop maxSize minSc sc sec (splitSentences para) [] 0 st of
              (current, sentIdx, st') \<Rightarrow>
                if trim current \<noteq> [] \<and> sc \<ge> minSc
                then push_chunk (detectType current no_type_meta) (trim current) sec sc (Partial sentIdx) st'
                else st')
         else if sc \<ge> minSc then push_chunk (detectType para no_type_meta) para sec sc NoMeta st
         else st)"

fun para_step :: "int \<Rightarrow> int \<Rightarrow> bool \<Rightarrow> heading list \<Rightarrow> chunk_state \<Rightarrow> string \<Rightarrow> chunk_state" where
  \<comment> \<open>one round of the loop \<open>for (const para of paragraphs)\<close>\<close>
  "para_step maxSize minSc incNav hs (cs, n, sec) para =
     (case heading_match hs para of
        Some i \<Rightarrow> (cs, n, Some (htext (hs ! i)))
      | None \<Rightarrow>
          (case emit_paragraph maxSize minSc incNav para sec (cs, n) of
             (cs', n') \<Rightarrow> (cs', n', sec)))"

definition paragraphs_of :: "string \<Rightarrow> string list" where
  "paragraphs_of txt = filter (\<lambda>p. length p > 0) (map trim (split_rx False rx_blank_lines txt))"

definition para_loop :: "int \<Rightarrow> int \<Rightarrow> bool \<Rightarrow> heading list \<Rightarrow> string list \<Rightarrow> chunk_state \<Rightarrow> chunk_state" where
  "para_loop maxSize minSc incNav hs paras st = foldl (para_step maxSize minSc incNav hs) st paras"

definition stats_json :: "(string \<times> int) list \<Rightarrow> string" where
  \<comment> \<open>\<open>JSON.stringify\<close> of an object whose members are integers with plain names\<close>
  "stats_json kvs =
     ''{'' @ join '','' (map (\<lambda>(k, v). [CHR 0x22] @ k @ [CHR 0x22] @ '':'' @ show_int v) kvs) @ ''}''"

definition summary_chunk :: "page \<Rightarrow> chunk list \<times> int \<Rightarrow> chunk list \<times> int" where
  "summary_chunk p st =
     push_chunk ''summary''
       (join [CHR 0x0A]
          ((case title p of None \<Rightarrow> [] | Some t \<Rightarrow> if t = [] then [] else [''Title: '' @ t])
           @ (case map_of (meta p) ''description'' of None \<Rightarrow> []
              | Some d \<Rightarrow> if d = [] then [] else [''Description: '' @ d])
           @ (if page_url p = [] then [] else [''URL: '' @ page_url p])
           @ (case page_stats p of None \<Rightarrow> [] | Some s \<Rightarrow> [''Stats: '' @ stats_json s])))
       None 10 IsSummary st"

definition toc_line :: "heading \<Rightarrow> string" where
  \<comment> \<open>one line of the outline; headings have levels 1 to 6\<close>
  "toc_line h =
     concat (replicate (level h - 1) ''  '') @ (if level h = 1 then [] else arrow @ '' '') @ htext h"

definition toc_chunk :: "page \<Rightarrow> chunk list \<times> int \<Rightarrow> chunk list \<times> int" where
  "toc_chunk p st =
     (if headings p = [] then st
      else push_chunk ''toc'' (''Page structure:'' @ [CHR 0x0A] @ join [CHR 0x0A] (map toc_line (headings p)))
             None 5 IsNav st)"

definition field_desc :: "field \<Rightarrow> string" where
  "field_desc f =
     tag f @ ''['' @ (case ftype f of None \<Rightarrow> tag f | Some t \<Rightarrow> if t = [] then tag f else t) @ ''] name=''
     @ [CHR 0x22] @ (case fname f of None \<Rightarrow> [] | Some n \<Rightarrow> n) @ [CHR 0x22] @ '' ''
     @ (case placeholder f of None \<Rightarrow> []
        | Some ph \<Rightarrow> if ph = [] then [] else ''placeholder='' @ [CHR 0x22] @ ph @ [CHR 0x22])
     @ '' '' @ (if required f then ''(required)'' else [])"

definition form_chunk :: "chunk list \<times> int \<Rightarrow> form \<Rightarrow> chunk list \<times> int" where
  "form_chunk st f =
     push_chunk ''form''
       (''Form: '' @ form_method f @ '' ''
        @ (case action f of None \<Rightarrow> ''(self)'' | Some a \<Rightarrow> if a = [] then ''(self)'' else a)
        @ [CHR 0x0A] @ ''  '' @ join ([CHR 0x0A] @ ''  '') (map field_desc (form_fields f)))
       None 7 (FormMeta f) st"

definition rx_nav_link :: rx where
  \<comment> \<open>\<open>^(home|menu|back|next|prev|more|see all)\<close>\<close>
  "rx_nav_link =
     Seq Bol (alts (map lit [''home'', ''menu'', ''back'', ''next'', ''prev'', ''more'', ''see all'']))"

definition importantLinks :: "link list \<Rightarrow> link list" where
  "importantLinks ls =
     take 20 (filter (\<lambda>l. \<not> rx_test True rx_nav_link (ltext l))
               (filter (\<lambda>l. ltext l \<noteq> [] \<and> strlen (ltext l) > 3 \<and> strlen (ltext l) < 80) ls))"

definition links_chunk :: "page \<Rightarrow> chunk list \<times> int \<Rightarrow> chunk list \<times> int" where
  "links_chunk p st =
     (if importantLinks (links p) = [] then st
      else push_chunk ''links''
             (''Notable links:'' @ [CHR 0x0A]
              @ join [CHR 0x0A]
                  (map (\<lambda>l. bullet @ '' '' @ ltext l @ '' '' @ arrow @ '' '' @ href l)
                       (importantLinks (links p))))
             None 3 (LinkCount (int (length (importantLinks (links p))))) st)"

definition text_chunks :: "page \<Rightarrow> chunk_opts \<Rightarrow> chunk list \<times> int \<Rightarrow> chunk list \<times> int" where
  \<comment> \<open>the chunks of the main text\<close>
  "text_chunks p opts st =
     (case para_loop (opt_maxSize opts) (opt_minScore opts) (opt_includeNav opts) (headings p)
             (paragraphs_of (textContent p)) (fst st, snd st, None) of
        (cs, n, sec) \<Rightarrow> (cs, n))"

definition sort_desc :: "('a \<Rightarrow> int) \<Rightarrow> 'a list \<Rightarrow> 'a list" where
  \<comment> \<open>\<open>xs.sort((a, b) => key(b) - key(a))\<close>; the sort of an array is stable\<close>
  "sort_desc key xs = sort_key (\<lambda>x. - key x) xs"

definition chunkPage :: "page \<Rightarrow> chunk_opts \<Rightarrow> chunk list" where
  "chunkPage p opts =
     sort_desc chunk_score
       (fst (links_chunk p
              (foldl form_chunk
                (text_chunks p opts
                  (toc_chunk p
                    (summary_chunk p ([], 0))))
                (forms p))))"

record format_opts =
  fmt_limit :: "int option"
  fmt_minScore :: "int option"

definition chunk_header :: "chunk \<Rightarrow> string" where
  "chunk_header c =
     join '' ''
       ([''[chunk:'' @ show_int (chunk_id c) @ '']'', ''type='' @ chunk_type c]
        @ (case chunk_section c of None \<Rightarrow> []
           | Some s \<Rightarrow> if s = [] then [] else [''section='' @ [CHR 0x22] @ s @ [CHR 0x22]])
        @ [''score='' @ show_int (chunk_score c)])"

definition formatChunks :: "chunk list \<Rightarrow> format_opts \<Rightarrow> string" where
  "formatChunks chunks opts =
     (let limit = (case fmt_limit opts of None \<Rightarrow> 10 | Some n \<Rightarrow> if n = 0 then 10 else n);
          minSc = (case fmt_minScore opts of None \<Rightarrow> 0 | Some n \<Rightarrow> n)
      in join ([CHR 0x0A, CHR 0x0A] @ ''---'' @ [CHR 0x0A, CHR 0x0A])
           (map (\<lambda>c. chunk_header c @ [CHR 0x0A] @ chunk_text c)
                (slice0 limit (filter (\<lambda>c. chunk_score c \<ge> minSc) chunks))))"


text \<open>A step of the chunker extends the list of chunks by chunks of one section.\<close>

definition extends_by :: "string option \<Rightarrow> chunk list \<times> int \<Rightarrow> chunk list \<times> int \<Rightarrow> bool" where
  "extends_by sec st st' =
     (\<exists>new. st' = (fst st @ new, snd st + int (length new)) \<and> (\<forall>c \<in> set new. chunk_section c = sec))"

subsection \<open>Query ranking\<close>

text \<open>
  \<open>findRelevant\<close> hands every kept word of the query to the \<open>RegExp\<close> constructor.  The
  constructor is modelled on the patterns built from ordinary characters, the dot and
  the quantifiers \<open>*\<close>, \<open>+\<close> and \<open>?\<close> (each with its lazy form): such a pattern is a sequence
  of quantified atoms, and a quantifier with nothing before it to repeat is a
  \<open>SyntaxError\<close>.  A pattern with another syntax character (\<open>^ $ \ ( ) [ ] { } |\<close>) is outside
  the model.
\<close>

datatype compiled = Regex rx | SyntaxError | NotModelled

definition is_quantifier :: "char \<Rightarrow> bool" where
  "is_quantifier c = in_chars ''*+?'' c"

definition is_other_syntax :: "char \<Rightarrow> bool" where
  "is_other_syntax c = in_chars [CHR ''^'', CHR ''$'', CHR 0x5C, CHR ''('', CHR '')'', CHR ''['', CHR '']'',
                                 CHR ''{'', CHR ''}'', CHR ''|''] c"

definition quantifier :: "char \<Rightarrow> bool \<Rightarrow> rx \<Rightarrow> rx" where
  \<comment> \<open>the atom under the quantifier \<open>*\<close>, \<open>+\<close> or \<open>?\<close>, greedy or lazy\<close>
  "quantifier c greedy a =
     (if c = CHR ''*'' then Rep 0 None greedy a
      else if c = CHR ''+'' then Rep 1 None greedy a
      else Rep 0 (Some 1) greedy a)"

definition quantified :: "rx \<Rightarrow> string \<Rightarrow> rx \<times> string" where
  \<comment> \<open>the atom with the quantifier that follows it, and the rest of the pattern; a \<open>?\<close>
      after a quantifier makes it lazy\<close>
  "quantified a cs =
     (case cs of
        [] \<Rightarrow> (a, cs)
      | c # cs' \<Rightarrow>
          if is_quantifier c then
            (case cs' of
               [] \<Rightarrow> (quantifier c True a, cs')
             | d # cs'' \<Rightarrow> if d = CHR ''?'' then (quantifier c False a, cs'') else (quantifier c True a, cs'))
          else (a, cs))"

lemma quantified_length: "length (snd (quantified a cs)) \<le> length cs"
  by (auto simp: quantified_def split: list.splits)

function RegExp_new :: "string \<Rightarrow> compiled" where
  \<comment> \<open>\<open>new RegExp(pattern, 'g')\<close>\<close>
  "RegExp_new [] = Regex Eps"
| "RegExp_new (c # cs) =
     (if is_quantifier c then SyntaxError
      else if is_other_syntax c then NotModelled
      else case RegExp_new (snd (quantified (if c = CHR ''.'' then Dot else Atom False [Chr c]) cs)) of
             Regex r \<Rightarrow> Regex (Seq (fst (quantified (if c = CHR ''.'' then Dot else Atom False [Chr c]) cs)) r)
           | SyntaxError \<Rightarrow> SyntaxError
           | NotModelled \<Rightarrow> NotModelled)"
  by pat_completeness auto
termination
proof (relation "measure length", goal_cases)
  case 1
  show ?case by simp
next
  case (2 c cs)
  show ?case
    using quantified_length [of "if c = CHR ''.'' then Dot else Atom False [Chr c]" cs] by simp
qed

datatype 'a outcome =
    Return 'a
  | Throws        \<comment> \<open>the call ends with the \<open>SyntaxError\<close> of the \<open>RegExp\<close> constructor\<close>
  | Unmodelled    \<comment> \<open>a pattern outside the model was compiled\<close>

fun add_relevance :: "string \<Rightarrow> string list \<Rightarrow> int \<Rightarrow> int outcome" where
  \<comment> \<open>the loop \<open>for (const word of queryWords)\<close>\<close>
  "add_relevance textLower [] rel = Return rel"
| "add_relevance textLower (word # ws) rel =
     (case RegExp_new word of
        Regex r \<Rightarrow> add_relevance textLower ws (rel + int (length (match_g False r textLower)) * 2)
      | SyntaxError \<Rightarrow> Throws
      | NotModelled \<Rightarrow> Unmodelled)"

fun score_chunks :: "string list \<Rightarrow> chunk list \<Rightarrow> chunk list outcome" where
  \<comment> \<open>\<open>chunks.map(chunk => ...)\<close>\<close>
  "score_chunks queryWords [] = Return []"
| "score_chunks queryWords (c # cs) =
     (case add_relevance (toLowerCase (chunk_text c)) queryWords (chunk_score c) of
        Return rel \<Rightarrow>
          (case score_chunks queryWords cs of
             Return scored \<Rightarrow> Return (c\<lparr>relevance := Some rel\<rparr> # scored)
           | Throws \<Rightarrow> Throws
           | Unmodelled \<Rightarrow> Unmodelled)
      | Throws \<Rightarrow> Throws
      | Unmodelled \<Rightarrow> Unmodelled)"

definition relevance_of :: "chunk \<Rightarrow> int" where
  "relevance_of c = (case relevance c of None \<Rightarrow> 0 | Some r \<Rightarrow> r)"

definition queryWords_of :: "string \<Rightarrow> string list" where
  "queryWords_of q = filter (\<lambda>w. strlen w > 2) (split_rx False rx_spaces (toLowerCase q))"

definition findRelevant :: "chunk list \<Rightarrow> string \<Rightarrow> int option \<Rightarrow> chunk list outcome" where
  \<comment> \<open>\<open>findRelevant(chunks, query, limit = 5)\<close>, with \<open>q\<close> for the query\<close>
  "findRelevant chunks q opt_limit =
     (case score_chunks (queryWords_of q) chunks of
        Return scored \<Rightarrow>
          Return (slice0 (case opt_limit of None \<Rightarrow> 5 | Some l \<Rightarrow> l) (sort_desc relevance_of scored))
      | Throws \<Rightarrow> Throws
      | Unmodelled \<Rightarrow> Unmodelled)"

section \<open>The lite renderer and the orchestrator\<close>

text \<open>
  The outcome of a network request or of the browser is an input of the model: a value
  of a sum type, \<open>Inl\<close> for the exception that the call throws.  The extractors of
  \<open>parseHTML\<close> resolve links with the platform's URL parser; \<open>parseHTML\<close> is a parameter.
\<close>

datatype js_error = Error string     \<comment> \<open>an exception with its message\<close>

fun message :: "js_error \<Rightarrow> string" where
  "message (Error m) = m"

record response =
  status :: int
  statusText :: string
  body :: string
  resp_url :: string
  content_type :: "string option"

definition ok :: "response \<Rightarrow> bool" where
  \<comment> \<open>\<open>response.ok\<close>\<close>
  "ok r = (200 \<le> status r \<and> status r \<le> 299)"

record lite_options =
  timeoutMs :: "int option"
  rawHtml :: "string option"      \<comment> \<open>\<open>_rawHtml\<close>\<close>

definition renderLite ::
  "(string \<Rightarrow> string \<Rightarrow> page) \<Rightarrow> (js_error + response) \<Rightarrow> string \<Rightarrow> lite_options \<Rightarrow> js_error + page" where
  \<comment> \<open>\<open>fetched\<close> is the outcome of \<open>fetch(url, ...)\<close>, used only when the request is made;
      the test \<open>if (options._rawHtml)\<close> fails for a missing and for an empty string\<close>
  "renderLite parseHTML fetched u options =
     (case rawHtml options of
        Some html \<Rightarrow>
          if html \<noteq> [] then
            Inr ((parseHTML html u)\<lparr> httpStatus := Some 200, contentType := Some ''text/html'',
                                     renderer := Some ''lite'' \<rparr>)
          else
            (case fetched of
               Inl e \<Rightarrow> Inl e
             | Inr r \<Rightarrow>
                 if \<not> ok r then Inl (Error (''HTTP '' @ show_int (status r) @ '' '' @ statusText r))
                 else Inr ((parseHTML (body r) (if resp_url r = [] then u else resp_url r))
                            \<lparr> httpStatus := Some (status r), contentType := content_type r,
                              renderer := Some ''lite'' \<rparr>))
      | None \<Rightarrow>
          (case fetched of
             Inl e \<Rightarrow> Inl e
           | Inr r \<Rightarrow>
               if \<not> ok r then Inl (Error (''HTTP '' @ show_int (status r) @ '' '' @ statusText r))
               else Inr ((parseHTML (body r) (if resp_url r = [] then u else resp_url r))
                          \<lparr> httpStatus := Some (status r), contentType := content_type r,
                            renderer := Some ''lite'' \<rparr>)))"

record render_result =
  res_url :: string
  res_backend :: string
  res_error :: "string option"
  res_detection :: "detection option"
  res_data :: "page option"
  res_chunks :: "chunk list option"
  res_summary :: "string option"
  res_ms :: int
  res_cached :: bool

record render_options =
  force :: "string option"
  query_opt :: "string option"      \<comment> \<open>\<open>query\<close>\<close>
  chunkLimit :: "int option"
  timeout :: "int option"
  verbose :: "bool option"
  noCache :: "bool option"
  cacheTtlMs :: "int option"

definition default_render_options :: render_options where
  \<comment> \<open>\<open>options = {}\<close>\<close>
  "default_render_options =
     \<lparr> force = None, query_opt = None, chunkLimit = None, timeout = None, verbose = None,
       noCache = None, cacheTtlMs = None \<rparr>"

definition or_else :: "'a \<Rightarrow> 'a option \<Rightarrow> 'a" where
  \<comment> \<open>\<open>x ?? d\<close>\<close>
  "or_else d x = (case x of None \<Rightarrow> d | Some v \<Rightarrow> v)"

definition truthy :: "string option \<Rightarrow> bool" where
  \<comment> \<open>a string that is neither \<open>undefined\<close> nor empty\<close>
  "truthy s = (s \<noteq> None \<and> s \<noteq> Some [])"

record raw_fetch =
  raw_html :: string
  raw_status :: int
  raw_contentType :: string

record world =
  fetchRaw_outcome :: "js_error + raw_fetch"      \<comment> \<open>of \<open>fetchRaw(url, timeout)\<close>\<close>
  playwright_outcome :: "js_error + page"         \<comment> \<open>of \<open>renderWithPlaywright(url, { timeout })\<close>\<close>
  lite_fetch_outcome :: "js_error + response"     \<comment> \<open>of the request of \<open>renderLite\<close>, if it makes one\<close>
  parse_html :: "string \<Rightarrow> string \<Rightarrow> page"           \<comment> \<open>\<open>parseHTML\<close>\<close>

record clock =
  t_start :: int      \<comment> \<open>\<open>t0\<close>\<close>
  t_open :: int       \<comment> \<open>read by \<open>purgeExpired\<close> when the cache is opened\<close>
  t_get :: int        \<comment> \<open>read by \<open>cache.get\<close>\<close>
  t_end :: int        \<comment> \<open>read for \<open>ms\<close>\<close>
  t_set :: int        \<comment> \<open>read by \<open>cache.set\<close>\<close>
  t_evict :: int      \<comment> \<open>read by the eviction\<close>

record 'j module_state =
  cache_inst :: "'j page_cache option"     \<comment> \<open>the variable \<open>_cache\<close>\<close>
  db_rows :: "'j row list"                 \<comment> \<open>the table stored at the default path\<close>
  db_next_id :: nat

definition getCache :: "int \<Rightarrow> 'j module_state \<Rightarrow> 'j page_cache" where
  "getCache now s =
     (case cache_inst s of
        Some c \<Rightarrow> c
      | None \<Rightarrow> snd (purgeExpired now (new_cache (Some (10 * 60 * 1000)) (Some 200) (db_rows s) (db_next_id s))))"

definition chunking :: "page \<Rightarrow> string option \<Rightarrow> int \<Rightarrow> (chunk list \<times> string) outcome" where
  \<comment> \<open>the body of the \<open>try\<close> block of \<open>buildResult\<close>\<close>
  "chunking data q limit =
     (case (if truthy q then findRelevant (chunkPage data default_opts) (or_else [] q) (Some limit)
            else Return (slice0 limit (chunkPage data default_opts))) of
        Return relevant \<Rightarrow>
          Return (relevant, formatChunks relevant \<lparr> fmt_limit = None, fmt_minScore = None \<rparr>)
      | Throws \<Rightarrow> Throws
      | Unmodelled \<Rightarrow> Unmodelled)"

definition buildResult ::
  "string \<Rightarrow> string \<Rightarrow> detection \<Rightarrow> page \<Rightarrow> string option \<Rightarrow> int \<Rightarrow> int \<Rightarrow> render_result outcome" where
  \<comment> \<open>the last argument is \<open>Date.now() - t0\<close>; an exception of the chunking is caught\<close>
  "buildResult u b det data q limit ms =
     (case chunking data q limit of
        Return (relevant, summ) \<Rightarrow>
          Return \<lparr> res_url = u, res_backend = b, res_error = None, res_detection = Some det,
                   res_data = Some data, res_chunks = Some relevant, res_summary = Some summ,
                   res_ms = ms, res_cached = False \<rparr>
      | Throws \<Rightarrow>
          Return \<lparr> res_url = u, res_backend = b, res_error = None, res_detection = Some det,
                   res_data = Some data, res_chunks = None,
                   res_summary = Some (take 2000 (textContent data)),
                   res_ms = ms, res_cached = False \<rparr>
      | Unmodelled \<Rightarrow> Unmodelled)"

definition error_result :: "string \<Rightarrow> string \<Rightarrow> int \<Rightarrow> render_result" where
  \<comment> \<open>\<open>{ url, backend: 'error', error, ms }\<close>\<close>
  "error_result u msg ms =
     \<lparr> res_url = u, res_backend = ''error'', res_error = Some msg, res_detection = None,
       res_data = None, res_chunks = None, res_summary = None, res_ms = ms, res_cached = False \<rparr>"

definition store_result ::
  "(render_result, 'j) json_codec \<Rightarrow> clock \<Rightarrow> string \<Rightarrow> render_options \<Rightarrow> string \<Rightarrow> 'j page_cache
     \<Rightarrow> render_result \<Rightarrow> 'j page_cache" where
  \<comment> \<open>the cache store at the end of \<open>render\<close>; \<open>b\<close> is the local \<open>backend\<close>\<close>
  "store_result J clk u opts b cache result =
     (if \<not> (noCache opts = Some True) \<and> res_backend result \<noteq> ''error''
      then cache_set J (t_set clk) (t_evict clk) u (or_else [] (query_opt opts)) result
             (Some (case cacheTtlMs opts of
                      Some t \<Rightarrow> t
                    | None \<Rightarrow> if b = ''playwright'' then 5 * 60 * 1000 else 10 * 60 * 1000))
             cache
      else cache)"

definition render_fresh ::
  "(render_result, 'j) json_codec \<Rightarrow> world \<Rightarrow> clock \<Rightarrow> string \<Rightarrow> render_options \<Rightarrow> 'j page_cache
     \<Rightarrow> render_result outcome \<times> 'j page_cache" where
  \<comment> \<open>\<open>render\<close> after the cache lookup: steps 1 to 3 and the cache store\<close>
  "render_fresh J W clk u opts cache =
     (let ms = t_end clk - t_start clk;
          limit = (case chunkLimit opts of None \<Rightarrow> 8 | Some l \<Rightarrow> l)
      in case fetchRaw_outcome W of
           Inl err \<Rightarrow> (Return (error_result u (''Fetch failed: '' @ message err) ms), cache)
         | Inr fetched \<Rightarrow>
             let detection = detectSPA (raw_html fetched);
                 useLite = (force opts = Some ''lite'' \<or> (\<not> truthy (force opts) \<and> \<not> isSPA detection));
                 b = (if useLite then ''lite'' else ''playwright'');
                 lite = renderLite (parse_html W) (lite_fetch_outcome W) u
                          \<lparr> timeoutMs = None, rawHtml = Some (raw_html fetched) \<rparr>
             in case (if useLite then lite else playwright_outcome W) of
                  Inl err \<Rightarrow>
                    if b = ''playwright'' then
                      (case lite of
                         Inr data \<Rightarrow>
                           (buildResult u ''lite-fallback'' detection data (query_opt opts) limit ms, cache)
                       | Inl e2 \<Rightarrow> (Return (error_result u (message e2) ms), cache))
                    else (Return (error_result u (message err) ms), cache)
                | Inr data \<Rightarrow>
                    (case buildResult u b detection data (query_opt opts) limit ms of
                       Return result \<Rightarrow> (Return result, store_result J clk u opts b cache result)
                     | Throws \<Rightarrow> (Throws, cache)
                     | Unmodelled \<Rightarrow> (Unmodelled, cache)))"

definition render ::
  "(render_result, 'j) json_codec \<Rightarrow> world \<Rightarrow> clock \<Rightarrow> string \<Rightarrow> render_options \<Rightarrow> 'j module_state
     \<Rightarrow> render_result outcome \<times> 'j module_state" where
  \<comment> \<open>\<open>render(url, options)\<close>: the result, and the module state with the cache after the call\<close>
  "render J W clk u opts s =
     (let cache = getCache (t_open clk) s
      in if \<not> (noCache opts = Some True) \<and> \<not> truthy (force opts) then
           (case cache_get J (t_get clk) u (or_else [] (query_opt opts)) cache of
              (Some cached, cache') \<Rightarrow>
                (Return (cached\<lparr> res_cached := True, res_ms := t_end clk - t_start clk \<rparr>),
                 s\<lparr> cache_inst := Some cache' \<rparr>)
            | (None, cache') \<Rightarrow>
                (case render_fresh J W clk u opts cache' of
                   (r, cache'') \<Rightarrow> (r, s\<lparr> cache_inst := Some cache'' \<rparr>)))
         else
           (case render_fresh J W clk u opts cache of
              (r, cache'') \<Rightarrow> (r, s\<lparr> cache_inst := Some cache'' \<rparr>)))"

section \<open>Example data\<close>

definition example_codec :: "(string, string) json_codec" where
  \<comment> \<open>a codec for examples: the results are strings, stored as they are\<close>
  "example_codec = \<lparr> stringify = (\<lambda>r. r), parse = (\<lambda>j. Some j), backend_of = (\<lambda>r. Some ''lite'') \<rparr>"

definition example_row1 :: "string row" where
  "example_row1 = \<lparr> row_id = 1, url = ''u1'', query = '''', backend = ''lite'', result_json = ''r1'',
      created_at = 100, expires_at = 110, hit_count = 0, last_hit = 100 \<rparr>"

definition example_row2 :: "string row" where
  "example_row2 = \<lparr> row_id = 2, url = ''u2'', query = '''', backend = ''lite'', result_json = ''r2'',
      created_at = 50, expires_at = 1000, hit_count = 0, last_hit = 50 \<rparr>"

definition example_row3 :: "string row" where
  "example_row3 = \<lparr> row_id = 3, url = ''u3'', query = '''', backend = ''lite'', result_json = ''r3'',
      created_at = 200, expires_at = 600200, hit_count = 0, last_hit = 200 \<rparr>"

definition example_cache :: "string page_cache" where
  \<comment> \<open>a table of two rows, full; at time 150 the first row has expired\<close>
  "example_cache = \<lparr> ttlMs = 600000, maxEntries = 2, rows = [example_row1, example_row2], next_id = 3 \<rparr>"

definition paragraph_chunk :: "int \<Rightarrow> string \<Rightarrow> int \<Rightarrow> chunk" where
  \<comment> \<open>a paragraph chunk, for examples\<close>
  "paragraph_chunk i txt sc =
     \<lparr> chunk_id = i, chunk_type = ''paragraph'', chunk_section = None, chunk_text = txt,
       chunk_score = sc, chunk_meta = NoMeta, relevance = None \<rparr>"

definition example_page :: page where
  \<comment> \<open>a page with one heading, whose text is the beginning of that heading\<close>
  "example_page =
     \<lparr> page_url = ''https://x.test/'', title = Some ''T'', meta = [],
       headings = [\<lparr> level = 1, htext = ''Step 1: Install'' \<rparr>], links = [], forms = [],
       textContent = ''Step 1'', page_stats = None,
       httpStatus = Some 200, contentType = Some ''text/html'', renderer = Some ''lite'' \<rparr>"

fun occurrences :: "string \<Rightarrow> string \<Rightarrow> nat" where
  \<comment> \<open>Modelled from the spec's words ("count of token occurrences in chunk.text"): the
      occurrences of the token \<open>w\<close> as a piece of the text, counted from left to right
      without overlap; the token is not empty.\<close>
  "occurrences w [] = 0"
| "occurrences w (c # cs) =
     (if w \<noteq> [] \<and> startsWith (c # cs) w then Suc (occurrences w (drop (length w) (c # cs)))
      else occurrences w cs)"

definition example_parseHTML :: "string \<Rightarrow> string \<Rightarrow> page" where
  \<comment> \<open>a stand-in for \<open>parseHTML\<close>: a page without structure, whose text is \<open>Hello\<close>\<close>
  "example_parseHTML html u =
     \<lparr> page_url = u, title = None, meta = [], headings = [], links = [], forms = [],
       textContent = ''Hello'', page_stats = None, httpStatus = None, contentType = None,
       renderer = None \<rparr>"

definition result_codec :: "(render_result, render_result) json_codec" where
  \<comment> \<open>a codec for examples that stores a result as it is\<close>
  "result_codec =
     \<lparr> stringify = (\<lambda>r. r), parse = (\<lambda>j. Some j), backend_of = (\<lambda>r. Some (res_backend r)) \<rparr>"

definition example_world :: "(js_error + page) \<Rightarrow> world" where
  \<comment> \<open>the raw HTML is \<open><app-root>\<close>, which the detector takes for a SPA; the outcome of the
      browser is the argument\<close>
  "example_world pw =
     \<lparr> fetchRaw_outcome = Inr \<lparr> raw_html = ''<app-root>'', raw_status = 200,
                                 raw_contentType = ''text/html'' \<rparr>,
       playwright_outcome = pw,
       lite_fetch_outcome = Inl (Error ''no request expected''),
       parse_html = example_parseHTML \<rparr>"

definition example_clock :: clock where
  "example_clock =
     \<lparr> t_start = 1000, t_open = 1000, t_get = 1001, t_end = 1500, t_set = 1501, t_evict = 1502 \<rparr>"

definition fresh_state :: "render_result module_state" where
  \<comment> \<open>the cache not yet opened, on an empty table\<close>
  "fresh_state = \<lparr> cache_inst = None, db_rows = [], db_next_id = 1 \<rparr>"



definition cached_keys :: "'j module_state \<Rightarrow> (string \<times> string \<times> string \<times> int) list" where
  \<comment> \<open>the entries of the cache: url, query, backend and time to live\<close>
  "cached_keys s =
     (case cache_inst s of
        None \<Rightarrow> []
      | Some c \<Rightarrow> map (\<lambda>r. (url r, query r, backend r, expires_at r - created_at r)) (rows c))"

section \<open>Properties of the string primitives\<close>

text \<open>The case conversions agree with the table of the letters of Latin-1.\<close>

lemma char_lower_table: "char_lower c = assoc_char upper_letters lower_letters c"
proof -
  have "\<forall>c. char_lower c = assoc_char upper_letters lower_letters c"
    by code_simp
  then show ?thesis by blast
qed

lemma char_upper_table: "char_upper c = assoc_char lower_letters upper_letters c"
proof -
  have "\<forall>c. char_upper c = assoc_char lower_letters upper_letters c"
    by code_simp
  then show ?thesis by blast
qed

section \<open>Properties of the detector\<close>

lemma scan_foldl:
  "foldl (\<lambda>(rs, sc) (pattern, reason, weight).
              if rx_test True pattern html then (rs @ [Signal reason], sc + weight) else (rs, sc))
           (rs0, sc0) sigs
   = (rs0 @ map (\<lambda>row. Signal (fst (snd row))) (filter (\<lambda>row. rx_test True (fst row) html) sigs),
      sc0 + sum_list (map (\<lambda>row. snd (snd row)) (filter (\<lambda>row. rx_test True (fst row) html) sigs)))"
  by (induction sigs arbitrary: rs0 sc0) (auto simp: split_beta algebra_simps)

lemma scan_signals_eq:
  "scan_signals html =
     (map (\<lambda>s. Signal (fst s)) (framework_fired html), sum_list (map snd (framework_fired html)))"
  unfolding scan_signals_def framework_fired_def
  using scan_foldl [of html "[]" 0 spaSignals] by (simp add: o_def)

lemma spaSignals_positive: "row \<in> set spaSignals \<Longrightarrow> 0 < snd (snd row)"
  by (auto simp: spaSignals_def)

lemma framework_positive: "s \<in> set (framework_fired html) \<Longrightarrow> 0 < snd s"
  unfolding framework_fired_def by (auto dest: spaSignals_positive)

lemma text_ratio_step_eq:
  "text_ratio_step (strlen (textContent_of html)) (strlen html) (rs, sc)
     = (rs @ (if very_low_text html
              then [VeryLowTextRatio (strlen (textContent_of html)) (strlen html)] else [])
           @ (if low_text html
              then [LowTextRatio (strlen (textContent_of html)) (strlen html)] else []),
        sc + (if very_low_text html then 4 else 0) + (if low_text html then 2 else 0))"
  by (simp add: very_low_text_def low_text_def)

lemma script_ratio_step_eq:
  "script_ratio_step (scriptSize html) (strlen html) (rs, sc)
     = (rs @ (if script_heavy html then [ScriptHeavy (scriptSize html) (strlen html)] else []),
        sc + (if script_heavy html then 2 else 0))"
  by (simp add: script_heavy_def)

lemma skeleton_step_eq:
  "skeleton_step html (rs, sc)
     = (rs @ (if skeletonHits html \<ge> 2 then [Signal ''Loading skeleton patterns detected''] else []),
        sc + (if skeletonHits html \<ge> 2 then 2 else 0))"
  by simp

lemma semantic_step_eq:
  "semantic_step html (strlen html) (rs, sc)
     = (rs @ (if no_semantic_content html
              then [Signal ''Large HTML with almost no semantic content''] else []),
        sc + (if no_semantic_content html then 3 else 0))"
  by (simp add: no_semantic_content_def)

lemma meta_step_eq:
  "meta_step html (rs, sc)
     = (rs @ (if meta_generator html then [Signal ''Meta generator = React/Next.js''] else []),
        sc + (if meta_generator html then 2 else 0))"
  by (simp add: meta_generator_def)

lemma ldjson_step_eq:
  "ldjson_step html (strlen (textContent_of html)) (strlen html) (rs, sc)
     = (rs, sc + (if ldjson_fires html then - 2 else 0))"
  by (simp add: ldjson_fires_def)

lemmas step_eqs = scan_signals_eq text_ratio_step_eq script_ratio_step_eq skeleton_step_eq
  semantic_step_eq meta_step_eq ldjson_step_eq

lemma fired_unfold:
  "spec_fired_signals html =
     framework_fired html
     @ (if very_low_text html then [(''Very low text ratio'', 4)] else [])
     @ (if low_text html then [(''Low text ratio'', 2)] else [])
     @ (if script_heavy html then [(''Script-heavy'', 2)] else [])
     @ (if skeletonHits html \<ge> 2 then [(''Loading skeleton patterns detected'', 2)] else [])
     @ (if no_semantic_content html then [(''Large HTML with almost no semantic content'', 3)] else [])
     @ (if meta_generator html then [(''Meta generator = React/Next.js'', 2)] else [])
     @ (if ldjson_fires html then [ldjson_signal] else [])"
proof -
  have cons: "map snd (filter fst ((c, s) # xs)) = (if c then [s] else []) @ map snd (filter fst xs)"
    for c and s :: signal and xs
    by simp
  have "map snd (filter fst (map (\<lambda>row. (rx_test True (fst row) html, snd row)) sigs))
          = map snd (filter (\<lambda>row. rx_test True (fst row) html) sigs)"
    for sigs :: "(rx \<times> signal) list"
    by (induction sigs) auto
  then have "map snd (filter fst (map (\<lambda>row. (rx_test True (fst row) html, snd row)) spaSignals))
          = framework_fired html"
    unfolding framework_fired_def .
  then show ?thesis
    unfolding spec_fired_signals_def signal_table_def filter_append map_append
    by (simp only: cons filter.simps(1) list.map(1) append_Nil2)
qed

lemma sum_if_signal: "sum_list (if c then [w] else []) = (if c then w else (0::int))"
  by simp

lemma map_if_list: "map f (if c then [x] else []) = (if c then [f x] else [])"
  by simp

lemma filter_if_list: "filter P (if c then [x] else []) = (if c \<and> P x then [x] else [])"
  by (cases c) simp_all

lemmas if_list_simps = sum_if_signal map_if_list filter_if_list

lemma score_detectSPA:
  "score (detectSPA html) = sum_list (map snd (spec_fired_signals html))"
  unfolding detectSPA_def detect_steps_def step_eqs fired_unfold
  by (simp add: if_list_simps ldjson_signal_def split del: if_split cong: if_cong)

lemma reasons_detectSPA:
  "map reason_name (reasons (detectSPA html))
     = map fst (filter (\<lambda>s. 0 < snd s) (spec_fired_signals html))"
proof -
  have "filter (\<lambda>s. 0 < snd s) (framework_fired html) = framework_fired html"
    by (rule filter_True) (auto dest: framework_positive)
  then show ?thesis
    unfolding detectSPA_def detect_steps_def step_eqs fired_unfold
    by (simp add: if_list_simps ldjson_signal_def o_def split del: if_split cong: if_cong)
qed

lemma report_flags:
  "isSPA (report st) = (4 \<le> score (report st))"
  "(confidence (report st) = ''high'') = (8 \<le> score (report st))"
  "(confidence (report st) = ''medium'') = (4 \<le> score (report st) \<and> score (report st) < 8)"
  "(confidence (report st) = ''low'') = (score (report st) < 4)"
  by (cases st; simp)+







section \<open>Properties of the cache\<close>

lemma select_row_Some:
  "select_row u q rs = Some r \<Longrightarrow> r \<in> set rs \<and> url r = u \<and> query r = q"
  unfolding select_row_def by (induction rs) (auto split: if_splits)

lemma select_row_None:
  "(select_row u q rs = None) = (\<forall>r \<in> set rs. \<not> (url r = u \<and> query r = q))"
  unfolding select_row_def by (auto simp: find_None_iff)

lemma same_id_same_row:
  "distinct (map row_id rs) \<Longrightarrow> r \<in> set rs \<Longrightarrow> x \<in> set rs \<Longrightarrow> row_id x = row_id r \<Longrightarrow> x = r"
  by (meson distinct_map inj_onD)

lemma same_key_same_row:
  "distinct (map (\<lambda>r. (url r, query r)) rs) \<Longrightarrow> r \<in> set rs \<Longrightarrow> x \<in> set rs
     \<Longrightarrow> url x = url r \<Longrightarrow> query x = query r \<Longrightarrow> x = r"
  by (drule distinct_map [THEN iffD1]) (auto dest: inj_onD)

lemma delete_id_row:
  "distinct (map row_id rs) \<Longrightarrow> r \<in> set rs \<Longrightarrow> delete_id (row_id r) rs = filter (\<lambda>x. x \<noteq> r) rs"
  unfolding delete_id_def by (rule filter_cong) (auto dest: same_id_same_row)

lemma touch_id_row:
  "distinct (map row_id rs) \<Longrightarrow> r \<in> set rs \<Longrightarrow>
     touch_id now (row_id r) rs
       = map (\<lambda>x. if x = r then r\<lparr>hit_count := hit_count r + 1, last_hit := now\<rparr> else x) rs"
  unfolding touch_id_def by (rule map_cong) (auto dest: same_id_same_row)

lemma select_row_deleted:
  assumes "distinct (map (\<lambda>r. (url r, query r)) rs)" and "select_row u q rs = Some r"
  shows "select_row u q (filter (\<lambda>x. x \<noteq> r) rs) = None"
  using assms select_row_Some [OF assms(2)]
  by (auto simp: select_row_None dest: same_key_same_row)

lemma select_row_touched:
  assumes "select_row u q rs = Some r"
  shows "select_row u q (touch_id now (row_id r) rs)
           = Some (r\<lparr>hit_count := hit_count r + 1, last_hit := now\<rparr>)"
  using assms unfolding select_row_def touch_id_def
  by (induction rs) (auto split: if_splits)

lemma wf_table_filter:
  "wf_table c \<Longrightarrow> wf_table (c\<lparr>rows := filter P (rows c)\<rparr>)"
  unfolding wf_table_def by (auto simp: distinct_map_filter list_all_iff)

lemma wf_table_touch:
  "wf_table c \<Longrightarrow> wf_table (c\<lparr>rows := touch_id now i (rows c)\<rparr>)"
proof -
  have "map row_id (touch_id now i rs) = map row_id rs"
    and "map (\<lambda>r. (url r, query r)) (touch_id now i rs) = map (\<lambda>r. (url r, query r)) rs"
    for rs :: "'a row list"
    unfolding touch_id_def by (induction rs) auto
  moreover have "list_all (\<lambda>r. row_id r < n) (touch_id now i rs) = list_all (\<lambda>r. row_id r < n) rs"
    for rs :: "'a row list" and n
    unfolding touch_id_def by (induction rs) auto
  ultimately show "wf_table c \<Longrightarrow> ?thesis"
    unfolding wf_table_def by simp
qed

lemma wf_cache_get: "wf_table c \<Longrightarrow> wf_table (snd (cache_get J now u q c))"
  unfolding cache_get_def delete_id_def
  by (auto split: option.splits intro: wf_table_filter wf_table_touch)

lemma wf_upsert: "wf_table c \<Longrightarrow> wf_table (upsert u q b j now e c)"
proof -
  let ?f = "\<lambda>r. if url r = u \<and> query r = q
                 then r\<lparr>backend := b, result_json := j, created_at := now,
                        expires_at := e, hit_count := 0, last_hit := now\<rparr>
                 else r"
  have ids: "map row_id (map ?f rs) = map row_id rs"
    and keys: "map (\<lambda>r. (url r, query r)) (map ?f rs) = map (\<lambda>r. (url r, query r)) rs"
    and bound: "list_all (\<lambda>r. row_id r < n) (map ?f rs) = list_all (\<lambda>r. row_id r < n) rs"
    for rs :: "'a row list" and n
    by (induction rs) auto
  assume wf: "wf_table c"
  show ?thesis
  proof (cases "list_ex (\<lambda>r. url r = u \<and> query r = q) (rows c)")
    case True
    then show ?thesis using wf by (simp add: upsert_def wf_table_def ids keys bound del: map_map)
  next
    case False
    then have "(u, q) \<notin> set (map (\<lambda>r. (url r, query r)) (rows c))"
      by (auto simp: list_ex_iff)
    moreover have "next_id c \<notin> set (map row_id (rows c))"
      using wf by (auto simp: wf_table_def list_all_iff)
    ultimately show ?thesis
      using wf False by (auto simp: upsert_def wf_table_def list_all_iff less_Suc_eq)
  qed
qed

lemma wf_evict: "wf_table c \<Longrightarrow> wf_table (evictIfNeeded now c)"
  unfolding evictIfNeeded_def Let_def by (auto intro: wf_table_filter)

lemma wf_cache_store: "wf_table c \<Longrightarrow> wf_table (cache_store J now u q r t c)"
  unfolding cache_store_def Let_def by (rule wf_upsert)

lemma wf_cache_set: "wf_table c \<Longrightarrow> wf_table (cache_set J now now2 u q r t c)"
  unfolding cache_set_def by (intro wf_evict wf_cache_store)

lemma maxEntries_upsert [simp]: "maxEntries (upsert u q b j now e c) = maxEntries c"
  by (simp add: upsert_def)

lemma maxEntries_evict [simp]: "maxEntries (evictIfNeeded now c) = maxEntries c"
  by (simp add: evictIfNeeded_def Let_def)

lemma maxEntries_cache_store [simp]: "maxEntries (cache_store J now u q r t c) = maxEntries c"
  by (simp add: cache_store_def Let_def)

lemma maxEntries_cache_set [simp]: "maxEntries (cache_set J now now2 u q r t c) = maxEntries c"
  by (simp add: cache_set_def)

lemma evict_rows:
  assumes "distinct (map row_id rs)"
  shows "filter (\<lambda>r. row_id r \<notin> set (map row_id (victims now k rs))) rs
           = filter (\<lambda>r. r \<notin> set (victims now k rs)) rs"
proof (rule filter_cong [OF refl])
  fix r assume r: "r \<in> set rs"
  have sub: "set (victims now k rs) \<subseteq> set rs"
    unfolding victims_def using set_take_subset [of k "sort_key (evict_key now) rs"] by simp
  show "(row_id r \<notin> set (map row_id (victims now k rs))) = (r \<notin> set (victims now k rs))"
    using same_id_same_row [OF assms _ r] sub by auto
qed

lemma length_filter_out:
  assumes "distinct xs" and "distinct vs" and "set vs \<subseteq> set xs"
  shows "length (filter (\<lambda>x. x \<notin> set vs) xs) = length xs - length vs"
proof -
  have "length (filter (\<lambda>x. x \<notin> set vs) xs) = card (set xs - set vs)"
    using assms(1) by (simp add: distinct_card [symmetric] set_diff_eq)
  also have "\<dots> = card (set xs) - card (set vs)"
    using assms(3) by (simp add: card_Diff_subset)
  finally show ?thesis
    using assms(1,2) by (simp add: distinct_card)
qed

lemma victims_props:
  assumes "distinct rs"
  shows "distinct (victims now k rs)" and "set (victims now k rs) \<subseteq> set rs"
    and "length (victims now k rs) = min k (length rs)"
  unfolding victims_def using assms set_take_subset [of k "sort_key (evict_key now) rs"]
  by (simp_all add: min.commute)

lemma victims_first:
  assumes "d \<in> set (victims now k rs)" and "x \<in> set rs" and "x \<notin> set (victims now k rs)"
  shows "evict_key now d \<le> evict_key now x"
proof -
  let ?ys = "sort_key (evict_key now) rs"
  have "sorted (map (evict_key now) (take k ?ys @ drop k ?ys))"
    by simp
  then have ord: "\<forall>a \<in> set (take k ?ys). \<forall>b \<in> set (drop k ?ys). evict_key now a \<le> evict_key now b"
    unfolding map_append sorted_append by auto
  have "x \<in> set (take k ?ys) \<union> set (drop k ?ys)"
    using assms(2) by (metis append_take_drop_id set_append set_sort)
  then have "x \<in> set (drop k ?ys)"
    using assms(3) by (simp add: victims_def)
  then show ?thesis
    using ord assms(1) by (simp add: victims_def)
qed


lemma evicted_before_key: "evicted_before now d x = (evict_key now d \<le> evict_key now x)"
  unfolding evicted_before_def evict_key_def by (auto simp: less_eq_prod_def)

lemma evict_over:
  assumes wf: "wf_table c" and over: "maxEntries c < length (rows c)"
  shows "rows (evictIfNeeded now c)
           = filter (\<lambda>r. r \<notin> set (victims now (length (rows c) - maxEntries c) (rows c))) (rows c)"
    and "length (victims now (length (rows c) - maxEntries c) (rows c)) = length (rows c) - maxEntries c"
    and "length (rows (evictIfNeeded now c)) = maxEntries c"
proof -
  let ?k = "length (rows c) - maxEntries c"
  have ids: "distinct (map row_id (rows c))"
    using wf by (simp add: wf_table_def)
  then have d: "distinct (rows c)"
    by (simp add: distinct_map)
  show rows_eq: "rows (evictIfNeeded now c) = filter (\<lambda>r. r \<notin> set (victims now ?k (rows c))) (rows c)"
    using over evict_rows [OF ids, of now ?k] by (simp add: evictIfNeeded_def Let_def)
  show len: "length (victims now ?k (rows c)) = ?k"
    using victims_props(3) [OF d, of now ?k] by simp
  show "length (rows (evictIfNeeded now c)) = maxEntries c"
    unfolding rows_eq
    using length_filter_out [OF d victims_props(1) [OF d, of now ?k] victims_props(2) [OF d, of now ?k]]
      len over by simp
qed

lemma evict_within: "length (rows c) \<le> maxEntries c \<Longrightarrow> evictIfNeeded now c = c"
  by (simp add: evictIfNeeded_def)

lemma evict_bound: "wf_table c \<Longrightarrow> length (rows (evictIfNeeded now c)) \<le> maxEntries c"
  using evict_over(3) [of c now] evict_within [of c now]
  by (cases "maxEntries c < length (rows c)") auto

lemma wf_run_sets: "wf_table c \<Longrightarrow> wf_table (run_sets J calls c)"
  unfolding run_sets_def
proof (induction calls arbitrary: c)
  case Nil
  then show ?case by simp
next
  case (Cons call calls)
  have "wf_table (run_set J c call)"
    using Cons.prems by (cases call) (simp add: wf_cache_set)
  then show ?case
    using Cons.IH by simp
qed

lemma maxEntries_run_set [simp]: "maxEntries (run_set J c call) = maxEntries c"
  by (cases call) simp

lemma maxEntries_run_sets [simp]: "maxEntries (run_sets J calls c) = maxEntries c"
  unfolding run_sets_def
  by (induction calls arbitrary: c) simp_all

lemma run_sets_bound:
  assumes "wf_table c" and "calls \<noteq> []"
  shows "length (rows (run_sets J calls c)) \<le> maxEntries c"
proof -
  obtain cs now now2 u q r t where calls: "calls = cs @ [(now, now2, u, q, r, t)]"
    using assms(2) by (metis rev_exhaust prod_cases6)
  have "run_sets J calls c = cache_set J now now2 u q r t (run_sets J cs c)"
    by (simp add: calls run_sets_def)
  moreover have "wf_table (cache_store J now u q r t (run_sets J cs c))"
    using assms(1) by (intro wf_cache_store wf_run_sets)
  ultimately show ?thesis
    using evict_bound [of "cache_store J now u q r t (run_sets J cs c)" now2]
    by (simp add: cache_set_def)
qed

lemma entries_stats [simp]: "entries (stats t1 t2 c) = length (rows c)"
  by (simp add: stats_def Let_def)

section \<open>Properties of the chunker\<close>

lemma findIndex_Some:
  "findIndex p xs = Some i \<Longrightarrow> i < length xs \<and> p (xs ! i) \<and> (\<forall>j < i. \<not> p (xs ! j))"
proof (induction xs arbitrary: i)
  case Nil
  then show ?case by simp
next
  case (Cons x xs)
  show ?case
  proof (cases "p x")
    case True
    with Cons.prems show ?thesis by simp
  next
    case False
    with Cons.prems obtain k where k: "findIndex p xs = Some k" "i = Suc k"
      by auto
    from Cons.IH [OF k(1)] False k(2) show ?thesis
      by (auto simp: nth_Cons less_Suc_eq_0_disj split: nat.splits)
  qed
qed

lemma findIndex_None: "(findIndex p xs = None) = (\<forall>x \<in> set xs. \<not> p x)"
  by (induction xs) auto

lemma startsWith_self: "startsWith s s"
  by (simp add: startsWith_def)

lemma extends_by_refl: "extends_by sec st st"
  unfolding extends_by_def by (intro exI [of _ "[]"]) simp

lemma extends_by_trans:
  assumes "extends_by sec st st'" and "extends_by sec st' st''"
  shows "extends_by sec st st''"
proof -
  obtain new where n1: "st' = (fst st @ new, snd st + int (length new))"
      "\<forall>c \<in> set new. chunk_section c = sec"
    using assms(1) unfolding extends_by_def by blast
  obtain new' where n2: "st'' = (fst st' @ new', snd st' + int (length new'))"
      "\<forall>c \<in> set new'. chunk_section c = sec"
    using assms(2) unfolding extends_by_def by blast
  show ?thesis
    unfolding extends_by_def using n1 n2
    by (intro exI [of _ "new @ new'"]) auto
qed

lemma extends_by_push: "extends_by sec st (push_chunk ty txt sec sc m st)"
  unfolding extends_by_def push_chunk_def
  by (intro exI [of _ "[\<lparr> chunk_id = snd st, chunk_type = ty, chunk_section = sec, chunk_text = txt,
        chunk_score = sc, chunk_meta = m, relevance = None \<rparr>]"]) simp

lemma extends_by_sentence_loop:
  "extends_by sec st (snd (snd (sentence_loop maxSize minSc sc sec sentences current sentIdx st)))"
proof (induction sentences arbitrary: current sentIdx st)
  case Nil
  show ?case by (simp add: extends_by_refl)
next
  case (Cons s sentences)
  have pushed: "\<And>cur' idx' ty tx mt. extends_by sec st
      (snd (snd (sentence_loop maxSize minSc sc sec sentences cur' idx'
                   (push_chunk ty tx sec sc mt st))))"
    by (rule extends_by_trans [OF extends_by_push Cons.IH])
  show ?case
    using Cons.IH pushed by simp
qed

lemma extends_by_emit: "extends_by sec st (emit_paragraph maxSize minSc incNav para sec st)"
proof -
  have loop: "extends_by sec st st'"
    if "sentence_loop maxSize minSc sc sec ss [] 0 st = (cur, idx, st')" for sc ss cur idx st'
    using extends_by_sentence_loop [of sec st maxSize minSc sc ss "[]" 0] that by simp
  show ?thesis
    unfolding emit_paragraph_def Let_def
    by (auto simp: extends_by_refl extends_by_push split: prod.splits
        intro: loop extends_by_trans [OF loop extends_by_push])
qed

lemma para_step_no_heading:
  assumes "heading_match hs para = None"
  shows "\<exists>new. para_step maxSize minSc incNav hs (cs, n, sec) para = (cs @ new, n + int (length new), sec)
           \<and> (\<forall>c \<in> set new. chunk_section c = sec)"
  using assms extends_by_emit [of sec "(cs, n)" maxSize minSc incNav para]
  unfolding extends_by_def by (auto split: prod.splits)

lemma para_loop_no_heading:
  assumes "\<forall>p \<in> set paras. heading_match hs p = None"
  shows "\<exists>new. para_loop maxSize minSc incNav hs paras (cs, n, sec) = (cs @ new, n + int (length new), sec)
           \<and> (\<forall>c \<in> set new. chunk_section c = sec)"
  using assms
proof (induction paras arbitrary: cs n)
  case Nil
  show ?case by (simp add: para_loop_def)
next
  case (Cons p paras)
  obtain new where new: "para_step maxSize minSc incNav hs (cs, n, sec) p = (cs @ new, n + int (length new), sec)"
      "\<forall>c \<in> set new. chunk_section c = sec"
    using para_step_no_heading [of hs p maxSize minSc incNav cs n sec] Cons.prems by auto
  obtain new' where new': "para_loop maxSize minSc incNav hs paras (cs @ new, n + int (length new), sec)
        = ((cs @ new) @ new', (n + int (length new)) + int (length new'), sec)"
      "\<forall>c \<in> set new'. chunk_section c = sec"
    using Cons.IH [of "cs @ new" "n + int (length new)"] Cons.prems by auto
  show ?case
    using new new' by (intro exI [of _ "new @ new'"]) (auto simp: para_loop_def)
qed

section \<open>The claims\<close>

text \<open>C5: the entities are decoded in six passes, and the pass for \<open>&amp;\<close> runs first,
  so the text \<open>&amp;lt;\<close> is decoded twice: the result is \<open><\<close>, not \<open>&lt;\<close>.\<close>

theorem decodeEntities_decodes_twice: "decodeEntities ''&amp;lt;'' = ''<''"
  by code_simp

text \<open>C4, as stated, fails: the claim lets \<open>reasons\<close> list exactly the signals that fired,
  but the negative \<open>application/ld+json\<close> signal fires on the page below (the score is
  \<open>-2\<close>) and no reason is listed for it.\<close>

theorem reasons_omit_ldjson:
  "spec_fired_signals ''application/ld+json'' = [ldjson_signal]
   \<and> score (detectSPA ''application/ld+json'') = - 2
   \<and> reasons (detectSPA ''application/ld+json'') = []"
  by code_simp

text \<open>C4, amended: for every HTML string, \<open>isSPA\<close> holds iff the score is at least 4; the
  confidence is \<open>high\<close> iff the score is at least 8, \<open>medium\<close> iff it is at least 4 and
  below 8, and \<open>low\<close> iff it is below 4; the score is the sum of the weights of the signals
  that fired; and \<open>reasons\<close> lists exactly the positive-weighted signals that fired, in
  scan order (the negative \<open>application/ld+json\<close> signal adds no reason).\<close>

theorem detectSPA_report:
  "isSPA (detectSPA html) = (4 \<le> score (detectSPA html))
   \<and> (confidence (detectSPA html) = ''high'') = (8 \<le> score (detectSPA html))
   \<and> (confidence (detectSPA html) = ''medium'')
       = (4 \<le> score (detectSPA html) \<and> score (detectSPA html) < 8)
   \<and> (confidence (detectSPA html) = ''low'') = (score (detectSPA html) < 4)
   \<and> score (detectSPA html) = sum_list (map snd (spec_fired_signals html))
   \<and> map reason_name (reasons (detectSPA html))
       = map fst (filter (\<lambda>s. 0 < snd s) (spec_fired_signals html))"
  using report_flags [of "ldjson_step html (strlen (textContent_of html)) (strlen html)
           (meta_step html (semantic_step html (strlen html) (skeleton_step html
             (script_ratio_step (scriptSize html) (strlen html)
               (text_ratio_step (strlen (textContent_of html)) (strlen html)
                 (scan_signals html))))))"]
    score_detectSPA [of html] reasons_detectSPA [of html]
  unfolding detectSPA_def detect_steps_def by blast

theorem detectSPA_report_witness:
  "isSPA (detectSPA ''<app-root>'')
   \<and> score (detectSPA ''<app-root>'') = 4
   \<and> confidence (detectSPA ''<app-root>'') = ''medium''
   \<and> map reason_name (reasons (detectSPA ''<app-root>'')) = [''Angular app-root'']"
proof -
  have fired: "spec_fired_signals ''<app-root>'' = [(''Angular app-root'', 4)]"
    by code_simp
  show ?thesis
    using detectSPA_report [of "''<app-root>''"] by (simp add: fired)
qed




text \<open>C2: \<open>get(url, query)\<close> on a table that satisfies its constraints.  If no row matches,
  it returns \<open>null\<close> and leaves the table as it is.  If the matching row has
  \<open>expires_at < now\<close>, it returns \<open>null\<close> and deletes exactly that row, so that no row
  matches afterwards and every later \<open>get\<close> of the key returns \<open>null\<close>.  Otherwise it
  returns the parsed \<open>result_json\<close> of the row (\<open>null\<close> if parsing throws), and in the
  table exactly that row has its \<open>hit_count\<close> incremented by 1 and its \<open>last_hit\<close> set to
  \<open>now\<close>.\<close>

theorem cache_get_semantics:
  assumes "wf_table c"
  shows
   "(select_row u q (rows c) = None \<longrightarrow> cache_get J now u q c = (None, c))
    \<and> (\<forall>r. select_row u q (rows c) = Some r \<and> expires_at r < now \<longrightarrow>
          fst (cache_get J now u q c) = None
          \<and> rows (snd (cache_get J now u q c)) = filter (\<lambda>x. x \<noteq> r) (rows c)
          \<and> select_row u q (rows (snd (cache_get J now u q c))) = None
          \<and> (\<forall>now'. fst (cache_get J now' u q (snd (cache_get J now u q c))) = None))
    \<and> (\<forall>r. select_row u q (rows c) = Some r \<and> \<not> expires_at r < now \<longrightarrow>
          fst (cache_get J now u q c) = parse J (result_json r)
          \<and> rows (snd (cache_get J now u q c))
              = map (\<lambda>x. if x = r then r\<lparr>hit_count := hit_count r + 1, last_hit := now\<rparr> else x)
                    (rows c))"
proof -
  have ids: "distinct (map row_id (rows c))"
    and keys: "distinct (map (\<lambda>r. (url r, query r)) (rows c))"
    using assms by (simp_all add: wf_table_def)
  have miss: "select_row u q (rows c) = None \<longrightarrow> cache_get J now u q c = (None, c)"
    by (simp add: cache_get_def)
  have expired: "fst (cache_get J now u q c) = None
          \<and> rows (snd (cache_get J now u q c)) = filter (\<lambda>x. x \<noteq> r) (rows c)
          \<and> select_row u q (rows (snd (cache_get J now u q c))) = None
          \<and> (\<forall>now'. fst (cache_get J now' u q (snd (cache_get J now u q c))) = None)"
    if sel: "select_row u q (rows c) = Some r" and ex: "expires_at r < now" for r
  proof -
    have r: "r \<in> set (rows c)"
      using select_row_Some [OF sel] by simp
    have rows': "rows (snd (cache_get J now u q c)) = filter (\<lambda>x. x \<noteq> r) (rows c)"
      using sel ex delete_id_row [OF ids r] by (simp add: cache_get_def)
    have gone: "select_row u q (rows (snd (cache_get J now u q c))) = None"
      unfolding rows' by (rule select_row_deleted [OF keys sel])
    show ?thesis
      using sel ex rows' gone by (simp add: cache_get_def)
  qed
  have hit: "fst (cache_get J now u q c) = parse J (result_json r)
          \<and> rows (snd (cache_get J now u q c))
              = map (\<lambda>x. if x = r then r\<lparr>hit_count := hit_count r + 1, last_hit := now\<rparr> else x)
                    (rows c)"
    if sel: "select_row u q (rows c) = Some r" and ok: "\<not> expires_at r < now" for r
  proof -
    have r: "r \<in> set (rows c)"
      using select_row_Some [OF sel] by simp
    show ?thesis
      using sel ok touch_id_row [OF ids r, of now] by (simp add: cache_get_def)
  qed
  show ?thesis
    using miss expired hit by blast
qed


theorem cache_get_semantics_witness:
  "cache_get example_codec 150 ''u3'' '''' example_cache = (None, example_cache)
   \<and> fst (cache_get example_codec 150 ''u1'' '''' example_cache) = None
   \<and> rows (snd (cache_get example_codec 150 ''u1'' '''' example_cache)) = [example_row2]
   \<and> fst (cache_get example_codec 160 ''u1'' ''''
            (snd (cache_get example_codec 150 ''u1'' '''' example_cache))) = None
   \<and> fst (cache_get example_codec 150 ''u2'' '''' example_cache) = Some ''r2''
   \<and> rows (snd (cache_get example_codec 150 ''u2'' '''' example_cache))
       = [example_row1, example_row2\<lparr>hit_count := 1, last_hit := 150\<rparr>]"
proof -
  have wf: "wf_table example_cache"
    by (simp add: wf_table_def example_cache_def example_row1_def example_row2_def)
  have sel: "select_row ''u3'' '''' (rows example_cache) = None"
    "select_row ''u1'' '''' (rows example_cache) = Some example_row1"
    "select_row ''u2'' '''' (rows example_cache) = Some example_row2"
    by (simp_all add: select_row_def example_cache_def example_row1_def example_row2_def)
  have ne: "example_row2 \<noteq> example_row1" "example_row1 \<noteq> example_row2"
    by (simp_all add: example_row1_def example_row2_def)
  have ex: "expires_at example_row1 < 150" "\<not> expires_at example_row2 < 150"
    "hit_count example_row2 = 0" "result_json example_row2 = ''r2''"
    "parse example_codec ''r2'' = Some ''r2''"
    by (simp_all add: example_row1_def example_row2_def example_codec_def)
  have rws: "rows example_cache = [example_row1, example_row2]"
    by (simp add: example_cache_def)
  have miss: "cache_get example_codec 150 ''u3'' '''' example_cache = (None, example_cache)"
    using cache_get_semantics [OF wf, of "''u3''" "''''" example_codec 150] sel(1) by blast
  have expired: "fst (cache_get example_codec 150 ''u1'' '''' example_cache) = None
      \<and> rows (snd (cache_get example_codec 150 ''u1'' '''' example_cache))
          = filter (\<lambda>x. x \<noteq> example_row1) (rows example_cache)
      \<and> (\<forall>now'. fst (cache_get example_codec now' ''u1'' ''''
            (snd (cache_get example_codec 150 ''u1'' '''' example_cache))) = None)"
    using cache_get_semantics [OF wf, of "''u1''" "''''" example_codec 150] sel(2) ex(1) by blast
  have hit: "fst (cache_get example_codec 150 ''u2'' '''' example_cache)
        = parse example_codec (result_json example_row2)
      \<and> rows (snd (cache_get example_codec 150 ''u2'' '''' example_cache))
          = map (\<lambda>x. if x = example_row2
                       then example_row2\<lparr>hit_count := hit_count example_row2 + 1, last_hit := 150\<rparr>
                       else x) (rows example_cache)"
    using cache_get_semantics [OF wf, of "''u2''" "''''" example_codec 150] sel(3) ex(2) by blast
  show ?thesis
    using miss expired hit ne by (simp add: ex rws)
qed

text \<open>C3: \<open>set\<close> on a table that satisfies its constraints.  If, after the upsert, the
  table holds more than \<open>maxEntries\<close> rows, then exactly \<open>count - maxEntries\<close> rows are
  deleted, namely the first ones in the order "expired rows first, then ascending
  \<open>last_hit\<close>": every deleted row comes before every remaining row in that order, and
  \<open>maxEntries\<close> rows remain.  Otherwise nothing is deleted.  Hence after a \<open>set\<close>, and after
  any non-empty sequence of \<open>set\<close> operations, \<open>stats().entries\<close> is at most \<open>maxEntries\<close>.\<close>

theorem cache_set_eviction:
  assumes "wf_table c"
  shows
   "(maxEntries c < length (rows (cache_store J now u q result ttl c)) \<longrightarrow>
       rows (cache_set J now now2 u q result ttl c)
         = filter (\<lambda>r. r \<notin> set (victims now2
                      (length (rows (cache_store J now u q result ttl c)) - maxEntries c)
                      (rows (cache_store J now u q result ttl c))))
             (rows (cache_store J now u q result ttl c))
       \<and> length (victims now2
                      (length (rows (cache_store J now u q result ttl c)) - maxEntries c)
                      (rows (cache_store J now u q result ttl c)))
           = length (rows (cache_store J now u q result ttl c)) - maxEntries c
       \<and> length (rows (cache_set J now now2 u q result ttl c)) = maxEntries c
       \<and> (\<forall>d \<in> set (victims now2
                      (length (rows (cache_store J now u q result ttl c)) - maxEntries c)
                      (rows (cache_store J now u q result ttl c))).
            \<forall>x \<in> set (rows (cache_set J now now2 u q result ttl c)). evicted_before now2 d x))
    \<and> (length (rows (cache_store J now u q result ttl c)) \<le> maxEntries c \<longrightarrow>
         cache_set J now now2 u q result ttl c = cache_store J now u q result ttl c)
    \<and> entries (stats t1 t2 (cache_set J now now2 u q result ttl c)) \<le> maxEntries c
    \<and> (calls \<noteq> [] \<longrightarrow> entries (stats t1 t2 (run_sets J calls c)) \<le> maxEntries c)"
proof -
  let ?c1 = "cache_store J now u q result ttl c"
  let ?k = "length (rows ?c1) - maxEntries c"
  have wf1: "wf_table ?c1"
    using assms by (rule wf_cache_store)
  have over: "rows (cache_set J now now2 u q result ttl c)
                = filter (\<lambda>r. r \<notin> set (victims now2 ?k (rows ?c1))) (rows ?c1)
       \<and> length (victims now2 ?k (rows ?c1)) = ?k
       \<and> length (rows (cache_set J now now2 u q result ttl c)) = maxEntries c
       \<and> (\<forall>d \<in> set (victims now2 ?k (rows ?c1)).
            \<forall>x \<in> set (rows (cache_set J now now2 u q result ttl c)). evicted_before now2 d x)"
    if "maxEntries c < length (rows ?c1)"
  proof -
    have gt: "maxEntries ?c1 < length (rows ?c1)"
      using that by simp
    have rows2: "rows (cache_set J now now2 u q result ttl c)
                   = filter (\<lambda>r. r \<notin> set (victims now2 ?k (rows ?c1))) (rows ?c1)"
      using evict_over(1) [OF wf1 gt, of now2] by (simp add: cache_set_def)
    have "evicted_before now2 d x"
      if "d \<in> set (victims now2 ?k (rows ?c1))"
        and "x \<in> set (rows (cache_set J now now2 u q result ttl c))" for d x
      using that victims_first [of d now2 ?k "rows ?c1" x]
      unfolding rows2 evicted_before_key by simp
    then show ?thesis
      using rows2 evict_over(2,3) [OF wf1 gt, of now2] by (simp add: cache_set_def)
  qed
  have within: "cache_set J now now2 u q result ttl c = ?c1" if "length (rows ?c1) \<le> maxEntries c"
    using that evict_within [of ?c1 now2] by (simp add: cache_set_def)
  have one: "entries (stats t1 t2 (cache_set J now now2 u q result ttl c)) \<le> maxEntries c"
    using evict_bound [OF wf1, of now2] by (simp add: cache_set_def)
  have many: "entries (stats t1 t2 (run_sets J calls c)) \<le> maxEntries c" if "calls \<noteq> []"
    using run_sets_bound [OF assms that, of J] by simp
  show ?thesis
    using over within one many by blast
qed

theorem cache_set_eviction_witness:
  "rows (cache_set example_codec 200 201 ''u3'' '''' ''r3'' None example_cache)
     = [example_row2, example_row3]
   \<and> entries (stats 300 300 (cache_set example_codec 200 201 ''u3'' '''' ''r3'' None example_cache)) \<le> 2
   \<and> entries (stats 300 300
        (run_sets example_codec
           [(200, 201, ''u3'', '''', ''r3'', None), (210, 211, ''u4'', '''', ''r4'', Some 5)]
           example_cache)) \<le> 2"
proof -
  have wf: "wf_table example_cache"
    by (simp add: wf_table_def example_cache_def example_row1_def example_row2_def)
  have store: "rows (cache_store example_codec 200 ''u3'' '''' ''r3'' None example_cache)
      = [example_row1, example_row2, example_row3]"
    by (simp add: cache_store_def upsert_def example_cache_def example_row1_def example_row2_def
        example_row3_def example_codec_def)
  have vic: "victims 201 (Suc 0) [example_row1, example_row2, example_row3] = [example_row1]"
    by (simp add: victims_def evict_key_def example_row1_def example_row2_def example_row3_def)
  have ne: "example_row2 \<noteq> example_row1" "example_row3 \<noteq> example_row1"
    by (simp_all add: example_row1_def example_row2_def example_row3_def)
  have mx: "maxEntries example_cache = 2"
    by (simp add: example_cache_def)
  have over: "maxEntries example_cache
      < length (rows (cache_store example_codec 200 ''u3'' '''' ''r3'' None example_cache))"
    by (simp add: store mx)
  have "rows (cache_set example_codec 200 201 ''u3'' '''' ''r3'' None example_cache)
      = filter (\<lambda>r. r \<notin> set (victims 201
                   (length (rows (cache_store example_codec 200 ''u3'' '''' ''r3'' None example_cache))
                      - maxEntries example_cache)
                   (rows (cache_store example_codec 200 ''u3'' '''' ''r3'' None example_cache))))
          (rows (cache_store example_codec 200 ''u3'' '''' ''r3'' None example_cache))
    \<and> entries (stats 300 300 (cache_set example_codec 200 201 ''u3'' '''' ''r3'' None example_cache))
        \<le> maxEntries example_cache
    \<and> entries (stats 300 300
        (run_sets example_codec
           [(200, 201, ''u3'', '''', ''r3'', None), (210, 211, ''u4'', '''', ''r4'', Some 5)]
           example_cache)) \<le> maxEntries example_cache"
    using cache_set_eviction [OF wf, where J = example_codec and now = 200 and ?u = "''u3''"
        and q = "[]" and result = "''r3''" and ttl = None and ?now2.0 = 201 and ?t1.0 = 300
        and ?t2.0 = 300
        and calls = "[(200, 201, ''u3'', [], ''r3'', None), (210, 211, ''u4'', [], ''r4'', Some 5)]"]
      over
    by blast
  then show ?thesis
    using ne by (simp add: store vic mx)
qed

text \<open>C6: the query \<open>a.c\<close> has one kept token, \<open>a.c\<close>.  The first chunk below contains the
  token once, the second does not contain it; both have score 0.  The code compiles the
  token as a regular expression, whose dot matches any character: it finds one match in
  the first chunk and three in the second, gives the second the relevance 6 instead of
  0, and ranks it above the first.\<close>

theorem findRelevant_token_as_regex:
  "queryWords_of ''a.c'' = [''a.c'']
   \<and> occurrences ''a.c'' ''a.c'' = 1
   \<and> occurrences ''a.c'' ''axc ayc azc'' = 0
   \<and> findRelevant [paragraph_chunk 0 ''a.c'' 0, paragraph_chunk 1 ''axc ayc azc'' 0] ''a.c'' (Some 5)
       = Return [(paragraph_chunk 1 ''axc ayc azc'' 0)\<lparr>relevance := Some 6\<rparr>,
                 (paragraph_chunk 0 ''a.c'' 0)\<lparr>relevance := Some 2\<rparr>]"
  by code_simp

text \<open>C9: the query \<open>c++\<close> has the kept token \<open>c++\<close>, of length 3; the \<open>RegExp\<close> constructor
  rejects it (its second \<open>+\<close> has nothing to repeat), and whenever there is a chunk to
  score, \<open>findRelevant\<close> throws instead of returning a list.\<close>

theorem findRelevant_throws:
  assumes "chunks \<noteq> []"
  shows "queryWords_of ''c++'' = [''c++'']
     \<and> strlen ''c++'' > 2
     \<and> RegExp_new ''c++'' = SyntaxError
     \<and> findRelevant chunks ''c++'' limit = Throws"
proof -
  have w: "queryWords_of ''c++'' = [''c++'']" and l: "strlen ''c++'' > 2"
    and r: "RegExp_new ''c++'' = SyntaxError"
    by code_simp+
  obtain c cs where "chunks = c # cs"
    using assms by (cases chunks) auto
  moreover have "add_relevance t [''c++''] rel = Throws" for t rel
    by (simp add: r del: RegExp_new.simps)
  ultimately have "findRelevant chunks ''c++'' limit = Throws"
    by (simp add: findRelevant_def w del: add_relevance.simps)
  then show ?thesis
    using w l r by simp
qed

theorem findRelevant_throws_witness:
  "findRelevant [paragraph_chunk 0 ''Learn C++ today'' 2] ''c++'' None = Throws"
  using findRelevant_throws [of "[paragraph_chunk 0 ''Learn C++ today'' 2]" None] by simp

text \<open>C8, as stated, fails: the paragraph \<open>Step 1\<close> is a prefix of the heading text
  \<open>Step 1: Install\<close>, and it is not skipped: a chunk is emitted for it, with no section.\<close>

theorem prefix_of_heading_not_skipped:
  "startsWith ''Step 1: Install'' ''Step 1''
   \<and> paragraphs_of (textContent example_page) = [''Step 1'']
   \<and> map (\<lambda>c. (chunk_type c, chunk_text c, chunk_section c)) (chunkPage example_page default_opts)
       = [(''summary'', ''Title: T'' @ [CHR 0x0A] @ ''URL: https://x.test/'', None),
          (''toc'', ''Page structure:'' @ [CHR 0x0A] @ ''Step 1: Install'', None),
          (''paragraph'', ''Step 1'', None)]"
  by code_simp

text \<open>C8, amended: a paragraph is skipped when, lowercased and trimmed, it starts with a
  known heading text (lowercased and trimmed), that is, when a heading text is a prefix
  of the paragraph (or equal to it).  Then no chunk is emitted for it and
  \<open>currentSection\<close> becomes the text of the first such heading.  A paragraph that starts
  with no heading text leaves \<open>currentSection\<close> as it is, and every chunk emitted for it
  carries \<open>currentSection\<close> as its section; so the chunks of the paragraphs that follow a
  skipped one, up to the next skipped one, carry its heading as their section.\<close>

theorem paragraph_heading_skip:
  "(\<forall>i. heading_match hs para = Some i \<longrightarrow>
        i < length hs
        \<and> startsWith (trim (toLowerCase para)) (trim (toLowerCase (htext (hs ! i))))
        \<and> (\<forall>j < i. \<not> startsWith (trim (toLowerCase para)) (trim (toLowerCase (htext (hs ! j)))))
        \<and> para_step maxSize minSc incNav hs (cs, n, sec) para = (cs, n, Some (htext (hs ! i))))
   \<and> (heading_match hs para = None)
       = (\<forall>h \<in> set hs. \<not> startsWith (trim (toLowerCase para)) (trim (toLowerCase (htext h))))
   \<and> (heading_match hs para = None \<longrightarrow>
        (\<exists>new. para_step maxSize minSc incNav hs (cs, n, sec) para
                  = (cs @ new, n + int (length new), sec)
               \<and> (\<forall>c \<in> set new. chunk_section c = sec)))
   \<and> ((\<forall>p \<in> set paras. heading_match hs p = None) \<longrightarrow>
        (\<exists>new. para_loop maxSize minSc incNav hs paras (cs, n, sec)
                  = (cs @ new, n + int (length new), sec)
               \<and> (\<forall>c \<in> set new. chunk_section c = sec)))"
proof -
  let ?pl = "trim (toLowerCase para)"
  have cond: "(\<lambda>h. ?pl = h \<or> startsWith ?pl h) = startsWith ?pl"
    by (auto simp: startsWith_self)
  have hit: "i < length hs
        \<and> startsWith ?pl (trim (toLowerCase (htext (hs ! i))))
        \<and> (\<forall>j < i. \<not> startsWith ?pl (trim (toLowerCase (htext (hs ! j)))))
        \<and> para_step maxSize minSc incNav hs (cs, n, sec) para = (cs, n, Some (htext (hs ! i)))"
    if m: "heading_match hs para = Some i" for i
  proof -
    have "findIndex (startsWith ?pl) (headingTexts hs) = Some i"
      using m by (simp add: heading_match_def Let_def cond)
    from findIndex_Some [OF this] show ?thesis
      using m by (auto simp: headingTexts_def)
  qed
  have miss: "(heading_match hs para = None)
       = (\<forall>h \<in> set hs. \<not> startsWith ?pl (trim (toLowerCase (htext h))))"
    by (simp add: heading_match_def Let_def cond findIndex_None headingTexts_def)
  show ?thesis
    using hit miss para_step_no_heading [of hs para maxSize minSc incNav cs n sec]
      para_loop_no_heading [of paras hs maxSize minSc incNav cs n sec]
    by blast
qed

theorem paragraph_heading_skip_witness:
  "para_step 800 (- 1) False (headings example_page) ([], 0, None) ''Step 1: Install it''
     = ([], 0, Some ''Step 1: Install'')
   \<and> (\<exists>new. para_step 800 (- 1) False (headings example_page) ([], 0, Some ''Step 1: Install'')
               ''Step 1''
             = ([] @ new, 0 + int (length new), Some ''Step 1: Install'')
          \<and> (\<forall>c \<in> set new. chunk_section c = Some ''Step 1: Install''))"
proof -
  have m1: "heading_match (headings example_page) ''Step 1: Install it'' = Some 0"
    and m2: "heading_match (headings example_page) ''Step 1'' = None"
    and h: "htext (headings example_page ! 0) = ''Step 1: Install''"
    by code_simp+
  show ?thesis
    using paragraph_heading_skip [of "headings example_page" "''Step 1: Install it''" 800 "- 1" False
        "[]" 0 None "[]"]
      paragraph_heading_skip [of "headings example_page" "''Step 1''" 800 "- 1" False
        "[]" 0 "Some ''Step 1: Install''" "[]"]
      m1 m2 h
    by simp
qed

text \<open>C1: a call with the default options (\<open>noCache\<close> false) on a page that the detector takes
  for a SPA.  When the browser renders it, the result (backend \<open>playwright\<close>) is stored
  under \<open>(url, "")\<close> with a time to live of 5 minutes.  When the browser raises and the
  lite path succeeds on the raw HTML, the result has the backend \<open>lite-fallback\<close>, which
  is not \<open>error\<close>, and nothing is stored: the fallback returns before the cache store.\<close>

theorem lite_fallback_not_cached:
  "(case render result_codec (example_world (Inr (example_parseHTML [] ''https://x.test/'')))
           example_clock ''https://x.test/'' default_render_options fresh_state of
      (r, s) \<Rightarrow> (case r of Return x \<Rightarrow> Some (res_backend x) | _ \<Rightarrow> None, cached_keys s))
     = (Some ''playwright'', [(''https://x.test/'', '''', ''playwright'', 300000)])
   \<and> (case render result_codec (example_world (Inl (Error ''browser closed'')))
           example_clock ''https://x.test/'' default_render_options fresh_state of
      (r, s) \<Rightarrow> (case r of Return x \<Rightarrow> Some (res_backend x) | _ \<Rightarrow> None, cached_keys s))
     = (Some ''lite-fallback'', [])"
  by code_simp




end
